theory Spec2Isabelle
  imports Complex_Main "HOL-Library.Char_ord" "HOL-Library.List_Lexorder" "HOL-Library.Multiset"
begin

section \<open>The loaded table\<close>

text \<open>
  The dashboard script \<^verbatim>\<open>dashboard.py\<close> reads one CSV file into a pandas DataFrame
  \<^verbatim>\<open>all_df\<close> and derives every view from it. A DataFrame is modelled as the list of its
  column names and the list of its rows. A row carries the columns the aggregations read;
  every cell is nullable, as a pandas cell is (\<open>None\<close> is NaN or NaT).

  \<^item> Identifiers and names are strings.
  \<^item> A timestamp is the number of nanoseconds since the epoch, which is how
    \<^verbatim>\<open>datetime64[ns]\<close> stores it.
  \<^item> A price is an exact rational: the rounding of binary floating point and overflow
    are outside the model, and so are cells that hold an infinity.
  \<^item> The numeric columns of a table with at least one row are float-typed. A table without
    rows has object-typed columns; the one place where that changes a result, the division
    of line 118, is modelled.
  \<^item> The sort of \<^verbatim>\<open>customer_state\<close> counts, which no statement below reads, is left out.
\<close>

type_synonym timestamp = int

record order_line =
  order_id :: "string option"
  customer_id :: "string option"
  product_category_name_english :: "string option"
  price :: "rat option"
  payment_type :: "string option"
  payment_value :: "rat option"
  review_score :: "int option"
  order_purchase_timestamp :: "timestamp option"
  order_delivered_customer_date :: "timestamp option"
  order_estimated_delivery_date :: "timestamp option"

record data_frame =
  columns :: "string list"
  rows :: "order_line list"

subsection \<open>Exceptions\<close>

text \<open>
  The exceptions that can end a run. The first three are among those that \<^verbatim>\<open>pd.read_csv\<close>
  raises, the next two are raised by \<^verbatim>\<open>pd.to_datetime\<close>, the last one by the division of
  two Python integers.
\<close>

datatype py_error =
  FileNotFoundError | PermissionError | EmptyDataError
| OutOfBoundsDatetime | ValueError | ZeroDivisionError

subsection \<open>Floating-point results\<close>

text \<open>
  A computed \<^verbatim>\<open>float64\<close> is a finite value, an infinity or NaN. numpy's true division does
  not raise on a zero divisor: it gives NaN for \<open>0 / 0\<close> and a signed infinity otherwise.
\<close>

datatype float64 = Finite rat | PosInf | NegInf | NaN

definition fdiv :: "rat \<Rightarrow> rat \<Rightarrow> float64" where
  "fdiv n d =
     (if d \<noteq> 0 then Finite (n / d)
      else if n = 0 then NaN
      else if 0 < n then PosInf
      else NegInf)"

fun fscale :: "float64 \<Rightarrow> rat \<Rightarrow> float64" where
  "fscale (Finite q) c = Finite (q * c)"
| "fscale PosInf c = (if 0 < c then PosInf else if c < 0 then NegInf else NaN)"
| "fscale NegInf c = (if 0 < c then NegInf else if c < 0 then PosInf else NaN)"
| "fscale NaN c = NaN"

subsection \<open>Series operations\<close>

text \<open>The reductions of pandas skip null cells.\<close>

fun notna :: "'a option list \<Rightarrow> 'a list" where
  "notna [] = []"
| "notna (None # xs) = notna xs"
| "notna (Some x # xs) = x # notna xs"

definition nunique :: "'a option list \<Rightarrow> nat" where
  "nunique xs = length (remdups (notna xs))"

definition series_sum :: "rat option list \<Rightarrow> rat" where
  "series_sum xs = sum_list (notna xs)"

definition series_count :: "'a option list \<Rightarrow> nat" where
  "series_count xs = length (notna xs)"

definition series_max :: "('a::linorder) option list \<Rightarrow> 'a option" where
  "series_max xs = (case notna xs of [] \<Rightarrow> None | y # ys \<Rightarrow> Some (fold max ys y))"

definition series_min :: "('a::linorder) option list \<Rightarrow> 'a option" where
  "series_min xs = (case notna xs of [] \<Rightarrow> None | y # ys \<Rightarrow> Some (fold min ys y))"

definition series_mean :: "rat option list \<Rightarrow> float64" where
  "series_mean xs = fdiv (series_sum xs) (of_nat (series_count xs))"

text \<open>The mean of a boolean Series: the share of \<open>True\<close>, NaN for an empty Series.\<close>

definition bool_mean :: "bool list \<Rightarrow> float64" where
  "bool_mean bs = fdiv (of_nat (length (filter (\<lambda>b. b) bs))) (of_nat (length bs))"

subsection \<open>Grouping\<close>

text \<open>
  \<^verbatim>\<open>groupby\<close> drops the rows whose key is null, keeps the rows of a group in their
  original order and returns the groups in ascending key order. The groups are built row
  by row in an association list kept sorted by key.
\<close>

fun insert_group :: "'k::linorder \<Rightarrow> 'r \<Rightarrow> ('k \<times> 'r list) list \<Rightarrow> ('k \<times> 'r list) list" where
  "insert_group k r [] = [(k, [r])]"
| "insert_group k r ((k', rs) # gs) =
     (if k = k' then (k', rs @ [r]) # gs
      else if k < k' then (k, [r]) # (k', rs) # gs
      else (k', rs) # insert_group k r gs)"

definition add_row :: "('r \<Rightarrow> 'k::linorder option) \<Rightarrow> ('k \<times> 'r list) list \<Rightarrow> 'r \<Rightarrow> ('k \<times> 'r list) list" where
  "add_row key gs r = (case key r of None \<Rightarrow> gs | Some k \<Rightarrow> insert_group k r gs)"

definition groupby :: "('r \<Rightarrow> 'k::linorder option) \<Rightarrow> 'r list \<Rightarrow> ('k \<times> 'r list) list" where
  "groupby key df = foldl (add_row key) [] df"

definition get_group :: "('k \<times> 'r list) list \<Rightarrow> 'k \<Rightarrow> 'r list" where
  "get_group gs k = (case map_of gs k of None \<Rightarrow> [] | Some rs \<Rightarrow> rs)"

subsection \<open>Sorting\<close>

text \<open>
  \<^verbatim>\<open>sort_values\<close>: ascending order is a sort by the key; descending order reverses the
  rows, sorts them ascending and reverses the result. The sort of the model is stable;
  numpy's default quicksort leaves the order of rows with equal keys open, and no theorem
  below depends on that order.
\<close>

definition sort_values :: "bool \<Rightarrow> ('a \<Rightarrow> 'k::linorder) \<Rightarrow> 'a list \<Rightarrow> 'a list" where
  "sort_values ascending by xs =
     (if ascending then sort_key by xs else rev (sort_key by (rev xs)))"

subsection \<open>Timestamps\<close>

definition ns_per_day :: int where
  "ns_per_day = 86400000000000"

text \<open>\<^verbatim>\<open>Timedelta.days\<close>: whole days, rounded towards minus infinity.\<close>

definition td_days :: "int \<Rightarrow> int" where
  "td_days d = d div ns_per_day"

text \<open>
  The calendar month of a timestamp, as the number \<open>12 * year + (month - 1)\<close>, from the
  day number by the usual civil-calendar computation on 400-year eras.
\<close>

definition month_index :: "timestamp \<Rightarrow> int" where
  "month_index t =
     (let z = t div ns_per_day + 719468;
          era = z div 146097;
          doe = z mod 146097;
          yoe = (doe - doe div 1460 + doe div 36524 - doe div 146096) div 365;
          doy = doe - (365 * yoe + yoe div 4 - yoe div 100);
          mp = (5 * doy + 2) div 153;
          m = (if mp < 10 then mp + 3 else mp - 9);
          y = yoe + era * 400 + (if m \<le> 2 then 1 else 0)
      in 12 * y + (m - 1))"

section \<open>The aggregations\<close>

subsection \<open>Monthly trend (\<^verbatim>\<open>prepare_monthly_data\<close>)\<close>

text \<open>
  \<^verbatim>\<open>df.groupby(pd.Grouper(key='order_purchase_timestamp', freq='M'))\<close> makes one bin for
  every calendar month from the month of the earliest purchase to the month of the latest
  one, also for a month without rows; rows without a purchase timestamp fall in no bin.
  A bin is labelled here by its month number (pandas labels it by the month's last day);
  the column \<^verbatim>\<open>month_name\<close>, a rendering of that label, is left out.
\<close>

record monthly_row =
  order_date :: int
  order_count :: nat
  revenue :: rat

definition month_key :: "order_line \<Rightarrow> int option" where
  "month_key r = map_option month_index (order_purchase_timestamp r)"

definition month_bins :: "order_line list \<Rightarrow> int list" where
  "month_bins df =
     (case (series_min (map order_purchase_timestamp df), series_max (map order_purchase_timestamp df)) of
        (Some lo, Some hi) \<Rightarrow> [month_index lo .. month_index hi]
      | _ \<Rightarrow> [])"

definition prepare_monthly_data :: "data_frame \<Rightarrow> monthly_row list" where
  "prepare_monthly_data df =
     (let gs = groupby month_key (rows df)
      in map (\<lambda>m. \<lparr>order_date = m,
                    order_count = nunique (map order_id (get_group gs m)),
                    revenue = series_sum (map price (get_group gs m))\<rparr>)
             (month_bins (rows df)))"

text \<open>Line 250: the average order value of each row of the (date-filtered) monthly table.\<close>

definition monthly_avg_order_value :: "monthly_row \<Rightarrow> float64" where
  "monthly_avg_order_value row = fdiv (revenue row) (of_nat (order_count row))"

subsection \<open>Categories (\<^verbatim>\<open>prepare_category_data\<close>)\<close>

record category_row =
  category :: string
  cat_order_count :: nat
  item_count :: nat
  min_price :: "rat option"
  avg_price :: float64
  max_price :: "rat option"
  total_sales :: rat

definition category_sums :: "order_line list \<Rightarrow> (string \<times> rat) list" where
  "category_sums df =
     map (\<lambda>(c, rs). (c, series_sum (map price rs))) (groupby product_category_name_english df)"

definition top_categories :: "data_frame \<Rightarrow> (string \<times> rat) list" where
  "top_categories df = take 10 (sort_values False snd (category_sums (rows df)))"

definition bottom_categories :: "data_frame \<Rightarrow> (string \<times> rat) list" where
  "bottom_categories df = take 10 (sort_values True snd (category_sums (rows df)))"

definition category_stats :: "data_frame \<Rightarrow> category_row list" where
  "category_stats df =
     sort_values False total_sales
       (map (\<lambda>(c, rs).
              \<lparr>category = c,
               cat_order_count = nunique (map order_id rs),
               item_count = series_count (map price rs),
               min_price = series_min (map price rs),
               avg_price = series_mean (map price rs),
               max_price = series_max (map price rs),
               total_sales = series_sum (map price rs)\<rparr>)
            (groupby product_category_name_english (rows df)))"

definition prepare_category_data ::
  "data_frame \<Rightarrow> (string \<times> rat) list \<times> (string \<times> rat) list \<times> category_row list" where
  "prepare_category_data df = (top_categories df, bottom_categories df, category_stats df)"

subsection \<open>Recency, frequency, monetary (\<^verbatim>\<open>prepare_rfm_data\<close>)\<close>

record rfm_row =
  rfm_customer_id :: string
  frequency :: nat
  monetary :: rat
  recency :: "int option"

text \<open>
  \<^verbatim>\<open>(recent_date - x).days\<close>: a difference with NaT is NaT, whose \<^verbatim>\<open>days\<close> is NaN.
\<close>

definition days_between :: "timestamp option \<Rightarrow> timestamp option \<Rightarrow> int option" where
  "days_between a b =
     (case (a, b) of (Some x, Some y) \<Rightarrow> Some (td_days (x - y)) | _ \<Rightarrow> None)"

definition recent_date :: "order_line list \<Rightarrow> timestamp option" where
  "recent_date df = series_max (map order_purchase_timestamp df)"

definition prepare_rfm_data :: "data_frame \<Rightarrow> rfm_row list" where
  "prepare_rfm_data df =
     map (\<lambda>(c, rs).
            \<lparr>rfm_customer_id = c,
             frequency = nunique (map order_id rs),
             monetary = series_sum (map price rs),
             recency = days_between (recent_date (rows df))
                         (series_max (map order_purchase_timestamp rs))\<rparr>)
         (groupby customer_id (rows df))"

subsection \<open>Delivery performance (\<^verbatim>\<open>prepare_delivery_data\<close>)\<close>

record delivery_row =
  source_row :: order_line
  actual_delivery_time :: "int option"
  estimated_delivery_time :: "int option"
  delivery_difference :: "int option"

text \<open>\<^verbatim>\<open>drop_duplicates(subset=[...])\<close> keeps the first row of every key; null keys are equal.\<close>

fun drop_duplicates_from :: "('r \<Rightarrow> 'k) \<Rightarrow> 'k list \<Rightarrow> 'r list \<Rightarrow> 'r list" where
  "drop_duplicates_from key seen [] = []"
| "drop_duplicates_from key seen (r # rs) =
     (if key r \<in> set seen then drop_duplicates_from key seen rs
      else r # drop_duplicates_from key (key r # seen) rs)"

definition drop_duplicates :: "('r \<Rightarrow> 'k) \<Rightarrow> 'r list \<Rightarrow> 'r list" where
  "drop_duplicates key df = drop_duplicates_from key [] df"

definition dropna :: "('r \<Rightarrow> 'a option) \<Rightarrow> 'r list \<Rightarrow> 'r list" where
  "dropna col df = filter (\<lambda>r. col r \<noteq> None) df"

text \<open>Subtraction of two integer columns; a null operand gives a null result.\<close>

definition col_minus :: "int option \<Rightarrow> int option \<Rightarrow> int option" where
  "col_minus a b = (case (a, b) of (Some x, Some y) \<Rightarrow> Some (x - y) | _ \<Rightarrow> None)"

definition delivery_times :: "order_line \<Rightarrow> delivery_row" where
  "delivery_times r =
     (let actual = days_between (order_delivered_customer_date r) (order_purchase_timestamp r);
          estimated = days_between (order_estimated_delivery_date r) (order_purchase_timestamp r)
      in \<lparr>source_row = r,
          actual_delivery_time = actual,
          estimated_delivery_time = estimated,
          delivery_difference = col_minus estimated actual\<rparr>)"

definition prepare_delivery_data :: "data_frame \<Rightarrow> delivery_row list" where
  "prepare_delivery_data df =
     map delivery_times (drop_duplicates order_id (dropna order_delivered_customer_date (rows df)))"

section \<open>Overview metrics\<close>

definition total_orders :: "data_frame \<Rightarrow> nat" where
  "total_orders df = nunique (map order_id (rows df))"

definition total_revenue :: "data_frame \<Rightarrow> rat" where
  "total_revenue df = series_sum (map price (rows df))"

text \<open>
  Line 118 divides \<^verbatim>\<open>total_revenue\<close> by \<^verbatim>\<open>total_orders\<close>. For a table without rows the
  price column is object-typed, its sum is the Python integer 0, and the division of the
  integer 0 by the integer 0 raises. With at least one row the sum is a numpy float and
  the division is numpy's, which does not raise.
\<close>

definition avg_order_value :: "data_frame \<Rightarrow> py_error + float64" where
  "avg_order_value df =
     (if rows df = [] then Inl ZeroDivisionError
      else Inr (fdiv (total_revenue df) (of_nat (total_orders df))))"

text \<open>A comparison with NaN is false.\<close>

definition ge_zero :: "int option \<Rightarrow> bool" where
  "ge_zero d = (case d of None \<Rightarrow> False | Some x \<Rightarrow> 0 \<le> x)"

definition on_time_rate :: "delivery_row list \<Rightarrow> float64" where
  "on_time_rate delivery_data =
     fscale (bool_mean (map (\<lambda>d. ge_zero (delivery_difference d)) delivery_data)) 100"

definition on_time_delivery_rate :: "data_frame \<Rightarrow> float64" where
  "on_time_delivery_rate df = on_time_rate (prepare_delivery_data df)"

subsection \<open>Payment methods\<close>

record payment_row =
  pm_payment_type :: string
  pm_order_id :: nat
  pm_payment_value :: rat

definition payment_methods :: "data_frame \<Rightarrow> payment_row list" where
  "payment_methods df =
     map (\<lambda>(p, rs).
            \<lparr>pm_payment_type = p,
             pm_order_id = nunique (map order_id rs),
             pm_payment_value = series_sum (map payment_value rs)\<rparr>)
         (groupby payment_type (rows df))"

subsection \<open>Review scores\<close>

text \<open>
  \<^verbatim>\<open>value_counts\<close> counts every value that occurs, in order of first occurrence, and
  sorts the counts in descending order.
\<close>

fun count_values :: "'a list \<Rightarrow> ('a \<times> nat) list" where
  "count_values [] = []"
| "count_values (x # xs) =
     (x, Suc (length (filter (\<lambda>y. y = x) xs))) # count_values (filter (\<lambda>y. y \<noteq> x) xs)"

definition value_counts :: "'a option list \<Rightarrow> ('a \<times> nat) list" where
  "value_counts xs = sort_values False snd (count_values (notna xs))"

definition has_review_score :: "data_frame \<Rightarrow> bool" where
  "has_review_score df = (''review_score'' \<in> set (columns df))"

definition review_distribution :: "data_frame \<Rightarrow> (int \<times> nat) list" where
  "review_distribution df =
     (if has_review_score df then value_counts (map review_score (rows df))
      else zip [1, 2, 3, 4, 5] [0, 0, 0, 0, 0])"

definition avg_review_score :: "data_frame \<Rightarrow> float64" where
  "avg_review_score df =
     (if has_review_score df
      then fdiv (of_int (sum_list (notna (map review_score (rows df)))))
                (of_nat (series_count (map review_score (rows df))))
      else Finite 0)"

text \<open>
  The two places that draw the review scores. The overview chart takes the distribution
  sorted by score and the average for its title. The section of the additional insights is
  drawn only when the column exists; \<open>None\<close> is the skipped section.
\<close>

definition overview_review_chart :: "data_frame \<Rightarrow> (int \<times> nat) list \<times> float64" where
  "overview_review_chart df = (sort_values True fst (review_distribution df), avg_review_score df)"

definition insights_review_section :: "data_frame \<Rightarrow> (int \<times> nat) list option" where
  "insights_review_section df =
     (if has_review_score df then Some (sort_values True fst (review_distribution df)) else None)"

section \<open>Loading and the run of the script\<close>

subsection \<open>The file as read\<close>

text \<open>
  \<^verbatim>\<open>pd.read_csv\<close> is a function of the library: it either raises or returns the table
  of the file, with the timestamp columns still unconverted. It is a parameter of
  \<^verbatim>\<open>load_data\<close> below, a function from the state of the file to an exception or a raw
  table. A raw timestamp cell is classified by what \<^verbatim>\<open>pd.to_datetime\<close> makes of it within
  its column: an empty cell, a cell that converts to a timestamp, a date outside the range
  of \<^verbatim>\<open>datetime64[ns]\<close>, or a cell that does not convert.
\<close>

datatype raw_time = Blank | Parsed timestamp | Out_of_bounds | Unparsable

record raw_line =
  raw_order_id :: "string option"
  raw_customer_id :: "string option"
  raw_product_category_name_english :: "string option"
  raw_price :: "rat option"
  raw_payment_type :: "string option"
  raw_payment_value :: "rat option"
  raw_review_score :: "int option"
  raw_order_purchase_timestamp :: raw_time
  raw_order_approved_at :: raw_time
  raw_order_delivered_carrier_date :: raw_time
  raw_order_delivered_customer_date :: raw_time
  raw_order_estimated_delivery_date :: raw_time

record raw_frame =
  raw_columns :: "string list"
  raw_rows :: "raw_line list"

subsection \<open>\<^verbatim>\<open>load_data\<close> (lines 19 to 29)\<close>

text \<open>
  \<^verbatim>\<open>pd.to_datetime\<close> on a column: the first cell that is out of range or does not convert
  raises; otherwise every cell becomes a timestamp or NaT.
\<close>

fun cell_error :: "raw_time \<Rightarrow> py_error option" where
  "cell_error Blank = None"
| "cell_error (Parsed t) = None"
| "cell_error Out_of_bounds = Some OutOfBoundsDatetime"
| "cell_error Unparsable = Some ValueError"

fun cell_time :: "raw_time \<Rightarrow> timestamp option" where
  "cell_time (Parsed t) = Some t"
| "cell_time c = None"

fun to_datetime :: "raw_time list \<Rightarrow> py_error + timestamp option list" where
  "to_datetime [] = Inr []"
| "to_datetime (c # cs) =
     (case cell_error c of
        Some e \<Rightarrow> Inl e
      | None \<Rightarrow> (case to_datetime cs of Inl e \<Rightarrow> Inl e | Inr ts \<Rightarrow> Inr (cell_time c # ts)))"

text \<open>The list \<^verbatim>\<open>datetime_columns\<close> of line 22, each name with the column it selects.\<close>

definition datetime_columns :: "(string \<times> (raw_line \<Rightarrow> raw_time)) list" where
  "datetime_columns =
     [(''order_purchase_timestamp'', raw_order_purchase_timestamp),
      (''order_approved_at'', raw_order_approved_at),
      (''order_delivered_carrier_date'', raw_order_delivered_carrier_date),
      (''order_delivered_customer_date'', raw_order_delivered_customer_date),
      (''order_estimated_delivery_date'', raw_order_estimated_delivery_date)]"

text \<open>
  The loop of lines 26 to 28: the columns are converted in the order of the list, a column
  that the table does not have is skipped, and the first exception ends the loop.
\<close>

fun convert_columns :: "raw_frame \<Rightarrow> (string \<times> (raw_line \<Rightarrow> raw_time)) list \<Rightarrow> py_error option" where
  "convert_columns df [] = None"
| "convert_columns df ((column, cells) # columns') =
     (if column \<in> set (raw_columns df)
      then (case to_datetime (map cells (raw_rows df)) of
              Inl e \<Rightarrow> Some e
            | Inr ts \<Rightarrow> convert_columns df columns')
      else convert_columns df columns')"

text \<open>A row after the conversion, with the columns the aggregations read.\<close>

definition converted_line :: "raw_line \<Rightarrow> order_line" where
  "converted_line r =
     \<lparr>order_id = raw_order_id r,
      customer_id = raw_customer_id r,
      product_category_name_english = raw_product_category_name_english r,
      price = raw_price r,
      payment_type = raw_payment_type r,
      payment_value = raw_payment_value r,
      review_score = raw_review_score r,
      order_purchase_timestamp = cell_time (raw_order_purchase_timestamp r),
      order_delivered_customer_date = cell_time (raw_order_delivered_customer_date r),
      order_estimated_delivery_date = cell_time (raw_order_estimated_delivery_date r)\<rparr>"

text \<open>
  \<^verbatim>\<open>load_data\<close> has no handler: an exception of \<^verbatim>\<open>read_csv\<close> or of a conversion leaves
  it unchanged. It makes no test on the number of rows.
\<close>

definition load_data :: "('f \<Rightarrow> py_error + raw_frame) \<Rightarrow> 'f \<Rightarrow> py_error + data_frame" where
  "load_data read_csv file =
     (case read_csv file of
        Inl e \<Rightarrow> Inl e
      | Inr df \<Rightarrow>
          (case convert_columns df datetime_columns of
             Some e \<Rightarrow> Inl e
           | None \<Rightarrow> Inr \<lparr>columns = raw_columns df, rows = map converted_line (raw_rows df)\<rparr>))"

subsection \<open>The run up to the overview metrics (lines 32 to 119)\<close>

text \<open>
  The table is loaded first; then the title, the introduction and the sidebar are drawn;
  then come the four aggregations and the metrics of the overview. The result is the list
  of the elements drawn so far and how this part of the run ends.

  The monthly grouping of line 110 raises for a table that has rows but no purchase
  timestamp at all; which exception that is, is the parameter \<open>grouper_error\<close>. Of the
  metrics only the average order value can raise.
\<close>

datatype element = Title | Introduction | Sidebar_title | Sidebar_radio

datatype outcome = Raised py_error | Reaches_line_120

definition overview_metrics :: "data_frame \<Rightarrow> py_error + nat \<times> rat \<times> float64 \<times> float64" where
  "overview_metrics df =
     (case avg_order_value df of
        Inl e \<Rightarrow> Inl e
      | Inr a \<Rightarrow> Inr (total_orders df, total_revenue df, a, on_time_delivery_rate df))"

definition run_script ::
  "('f \<Rightarrow> py_error + raw_frame) \<Rightarrow> py_error \<Rightarrow> 'f \<Rightarrow> element list \<times> outcome" where
  "run_script read_csv grouper_error file =
     (case load_data read_csv file of
        Inl e \<Rightarrow> ([], Raised e)
      | Inr all_df \<Rightarrow>
          (if rows all_df \<noteq> [] \<and> recent_date (rows all_df) = None
           then ([Title, Introduction, Sidebar_title, Sidebar_radio], Raised grouper_error)
           else (case overview_metrics all_df of
                   Inl e \<Rightarrow> ([Title, Introduction, Sidebar_title, Sidebar_radio], Raised e)
                 | Inr m \<Rightarrow> ([Title, Introduction, Sidebar_title, Sidebar_radio], Reaches_line_120))))"

section \<open>Sample data\<close>

text \<open>
  A small table for concrete evaluations: order O1 with two lines bought on 15 January 2017
  and delivered five days later, order O2 bought on 10 March 2017 and not delivered yet,
  and order O3 bought on 12 March 2017 and delivered after the estimated date.
\<close>

definition line_O1a :: order_line where
  "line_O1a =
     \<lparr>order_id = Some ''O1'', customer_id = Some ''C1'',
      product_category_name_english = Some ''toys'', price = Some 10,
      payment_type = Some ''credit_card'', payment_value = Some 12,
      review_score = Some 5,
      order_purchase_timestamp = Some 1484438400000000000,
      order_delivered_customer_date = Some 1484870400000000000,
      order_estimated_delivery_date = Some 1485302400000000000\<rparr>"

definition line_O1b :: order_line where
  "line_O1b = line_O1a\<lparr>price := Some 5, payment_value := Some 6\<rparr>"

definition line_O2 :: order_line where
  "line_O2 =
     \<lparr>order_id = Some ''O2'', customer_id = Some ''C2'',
      product_category_name_english = Some ''toys'', price = Some 20,
      payment_type = Some ''boleto'', payment_value = Some 25,
      review_score = Some 4,
      order_purchase_timestamp = Some 1489104000000000000,
      order_delivered_customer_date = None,
      order_estimated_delivery_date = Some 1490832000000000000\<rparr>"

definition line_O3 :: order_line where
  "line_O3 =
     \<lparr>order_id = Some ''O3'', customer_id = Some ''C1'',
      product_category_name_english = Some ''garden'', price = Some 7,
      payment_type = Some ''boleto'', payment_value = Some 9,
      review_score = None,
      order_purchase_timestamp = Some 1489320000000000000,
      order_delivered_customer_date = Some 1490356800000000000,
      order_estimated_delivery_date = Some 1490140800000000000\<rparr>"

definition all_columns :: "string list" where
  "all_columns =
     [''order_id'', ''customer_id'', ''product_category_name_english'', ''price'',
      ''payment_type'', ''payment_value'', ''review_score'', ''order_purchase_timestamp'',
      ''order_delivered_customer_date'', ''order_estimated_delivery_date'']"

definition sample_df :: data_frame where
  "sample_df = \<lparr>columns = all_columns, rows = [line_O1a, line_O1b, line_O2, line_O3]\<rparr>"

section \<open>Vocabulary of the statements\<close>

text \<open>The Order Lines whose purchase timestamp falls in the calendar month \<open>m\<close>.\<close>

definition month_rows :: "data_frame \<Rightarrow> int \<Rightarrow> order_line list" where
  "month_rows df m = filter (\<lambda>r. month_key r = Some m) (rows df)"

text \<open>A null amount adds nothing to a sum.\<close>

definition null_as_zero :: "rat option \<Rightarrow> rat" where
  "null_as_zero v = (case v of None \<Rightarrow> 0 | Some x \<Rightarrow> x)"

text \<open>The Order Lines of a payment type, and those of a category.\<close>

definition payment_rows :: "data_frame \<Rightarrow> string \<Rightarrow> order_line list" where
  "payment_rows df p = filter (\<lambda>r. payment_type r = Some p) (rows df)"

definition category_rows :: "data_frame \<Rightarrow> string \<Rightarrow> order_line list" where
  "category_rows df c = filter (\<lambda>r. product_category_name_english r = Some c) (rows df)"

text \<open>A delivery row counts as on time when its difference is present and not negative.\<close>

definition on_time :: "delivery_row \<Rightarrow> bool" where
  "on_time d = (\<exists>x. delivery_difference d = Some x \<and> 0 \<le> x)"

text \<open>A table whose only order has not been delivered.\<close>

definition undelivered_df :: data_frame where
  "undelivered_df = \<lparr>columns = all_columns, rows = [line_O2]\<rparr>"

text \<open>The Order Lines of a customer and the latest purchase timestamp among them.\<close>

definition customer_rows :: "data_frame \<Rightarrow> string \<Rightarrow> order_line list" where
  "customer_rows df c = filter (\<lambda>r. customer_id r = Some c) (rows df)"

definition last_purchase :: "data_frame \<Rightarrow> string \<Rightarrow> timestamp option" where
  "last_purchase df c = series_max (map order_purchase_timestamp (customer_rows df c))"

text \<open>A table with a customer whose only Order Line has no purchase timestamp.\<close>

definition line_no_purchase :: order_line where
  "line_no_purchase = line_O2\<lparr>customer_id := Some ''C3'', order_purchase_timestamp := None\<rparr>"

definition no_purchase_df :: data_frame where
  "no_purchase_df = \<lparr>columns = all_columns, rows = [line_O1a, line_no_purchase]\<rparr>"

text \<open>The result of a float division by zero, from the sign of the numerator.\<close>

definition zero_division :: "rat \<Rightarrow> float64" where
  "zero_division n = (if n = 0 then NaN else if 0 < n then PosInf else NegInf)"

text \<open>A table whose only Order Line has a price but no order identifier.\<close>

definition line_null_id :: order_line where
  "line_null_id = line_O2\<lparr>order_id := None, price := Some 10\<rparr>"

definition null_id_df :: data_frame where
  "null_id_df = \<lparr>columns = all_columns, rows = [line_null_id]\<rparr>"

text \<open>The sample table without the optional column.\<close>

definition no_review_df :: data_frame where
  "no_review_df = \<lparr>columns = remove1 ''review_score'' all_columns, rows = rows sample_df\<rparr>"

text \<open>The table without rows.\<close>

definition empty_df :: data_frame where
  "empty_df = \<lparr>columns = all_columns, rows = []\<rparr>"

text \<open>
  A directory for the evaluations: \<^verbatim>\<open>header.csv\<close> holds the header line only,
  \<^verbatim>\<open>far.csv\<close> one row whose estimated delivery date is out of range, \<^verbatim>\<open>one.csv\<close> one good
  row, and no other file exists.
\<close>

definition raw_line_one :: raw_line where
  "raw_line_one =
     \<lparr>raw_order_id = Some ''O1'', raw_customer_id = Some ''C1'',
      raw_product_category_name_english = Some ''toys'', raw_price = Some 10,
      raw_payment_type = Some ''credit_card'', raw_payment_value = Some 12,
      raw_review_score = Some 5,
      raw_order_purchase_timestamp = Parsed 1484438400000000000,
      raw_order_approved_at = Blank,
      raw_order_delivered_carrier_date = Blank,
      raw_order_delivered_customer_date = Parsed 1484870400000000000,
      raw_order_estimated_delivery_date = Parsed 1485302400000000000\<rparr>"

definition directory :: "string \<Rightarrow> py_error + raw_frame" where
  "directory name =
     (if name = ''header.csv'' then Inr \<lparr>raw_columns = all_columns, raw_rows = []\<rparr>
      else if name = ''far.csv''
        then Inr \<lparr>raw_columns = all_columns,
                  raw_rows = [raw_line_one\<lparr>raw_order_estimated_delivery_date := Out_of_bounds\<rparr>]\<rparr>
      else if name = ''one.csv'' then Inr \<lparr>raw_columns = all_columns, raw_rows = [raw_line_one]\<rparr>
      else Inl FileNotFoundError)"

section \<open>Properties of the table operations\<close>

lemma set_notna: "set (notna xs) = {x. Some x \<in> set xs}"
  by (induction xs rule: notna.induct) auto

lemma nunique_card: "nunique xs = card {x. Some x \<in> set xs}"
  unfolding nunique_def by (simp add: length_remdups_card_conv set_notna)

lemma nunique_map_card: "nunique (map f rs) = card {x. \<exists>r\<in>set rs. f r = Some x}"
proof -
  have "{x. Some x \<in> set (map f rs)} = {x. \<exists>r\<in>set rs. f r = Some x}"
    by (auto simp: image_iff) metis+
  then show ?thesis by (simp add: nunique_card)
qed

lemma nunique_le_length: "nunique xs \<le> length xs"
proof -
  have "length (notna xs) \<le> length xs"
    by (induction xs rule: notna.induct) auto
  moreover have "length (remdups (notna xs)) \<le> length (notna xs)"
    by (rule length_remdups_leq)
  ultimately show ?thesis unfolding nunique_def by linarith
qed

lemma insert_group_keys: "fst ` set (insert_group k r gs) = insert k (fst ` set gs)"
  by (induction k r gs rule: insert_group.induct) (simp_all add: insert_commute)

lemma insert_group_sorted:
  "sorted_wrt (<) (map fst gs) \<Longrightarrow> sorted_wrt (<) (map fst (insert_group k r gs))"
proof (induction gs)
  case Nil
  then show ?case by simp
next
  case (Cons g gs)
  obtain k' rs where g: "g = (k', rs)" by (cases g)
  have later: "\<forall>x\<in>set gs. k' < fst x" and tl: "sorted_wrt (<) (map fst gs)"
    using Cons.prems by (auto simp: g)
  show ?case
  proof (cases "k = k' \<or> k < k'")
    case True
    then show ?thesis using Cons.prems by (auto simp: g)
  next
    case False
    then have "k' < k" by auto
    then have "\<forall>x\<in>fst ` set (insert_group k r gs). k' < x"
      using later by (auto simp: insert_group_keys)
    then show ?thesis using False Cons.IH [OF tl] by (auto simp: g)
  qed
qed

lemma insert_group_map_of:
  "sorted_wrt (<) (map fst gs) \<Longrightarrow>
   map_of (insert_group k r gs) x =
     (if x = k then Some (get_group gs k @ [r]) else map_of gs x)"
proof (induction gs)
  case Nil
  then show ?case by (simp add: get_group_def)
next
  case (Cons g gs)
  obtain k' rs where g: "g = (k', rs)" by (cases g)
  show ?case
  proof (cases "k = k'")
    case True
    then show ?thesis by (auto simp: g get_group_def)
  next
    case False
    show ?thesis
    proof (cases "k < k'")
      case True
      then have "k \<notin> fst ` set gs" using Cons.prems by (auto simp: g)
      then have "map_of gs k = None" by (simp add: map_of_eq_None_iff)
      then show ?thesis using True False by (auto simp: g get_group_def)
    next
      case gt: False
      have "map_of (insert_group k r gs) x =
              (if x = k then Some (get_group gs k @ [r]) else map_of gs x)"
        using Cons by simp
      then show ?thesis using gt False by (auto simp: g get_group_def)
    qed
  qed
qed

lemma groupby_snoc: "groupby key (df @ [r]) = add_row key (groupby key df) r"
  by (simp add: groupby_def)

lemma groupby_sorted: "sorted_wrt (<) (map fst (groupby key df))"
proof (induction df rule: rev_induct)
  case Nil
  then show ?case by (simp add: groupby_def)
next
  case (snoc r df)
  then show ?case
    by (simp add: groupby_snoc add_row_def insert_group_sorted split: option.split)
qed

lemma groupby_map_of:
  "map_of (groupby key df) k =
     (if \<exists>r\<in>set df. key r = Some k then Some (filter (\<lambda>r. key r = Some k) df) else None)"
proof (induction df rule: rev_induct)
  case Nil
  then show ?case by (simp add: groupby_def)
next
  case (snoc r df)
  show ?case
  proof (cases "key r")
    case None
    then show ?thesis using snoc by (auto simp: groupby_snoc add_row_def)
  next
    case (Some k')
    have "map_of (groupby key (df @ [r])) k =
          (if k = k' then Some (get_group (groupby key df) k' @ [r])
           else map_of (groupby key df) k)"
      by (simp add: groupby_snoc add_row_def Some insert_group_map_of groupby_sorted)
    then show ?thesis using snoc Some
      by (auto simp: get_group_def filter_empty_conv)
  qed
qed

lemma groupby_distinct: "distinct (map fst (groupby key df))"
  using groupby_sorted [of key df] by (simp add: strict_sorted_iff)

lemma groupby_mem:
  "(k, rs) \<in> set (groupby key df) \<longleftrightarrow>
     (\<exists>r\<in>set df. key r = Some k) \<and> rs = filter (\<lambda>r. key r = Some k) df"
proof -
  have "(k, rs) \<in> set (groupby key df) \<longleftrightarrow> map_of (groupby key df) k = Some rs"
    by (simp add: groupby_distinct)
  then show ?thesis by (auto simp: groupby_map_of)
qed

lemma get_group_groupby:
  "get_group (groupby key df) k = filter (\<lambda>r. key r = Some k) df"
  by (auto simp: get_group_def groupby_map_of filter_empty_conv)

lemma groupby_keys: "fst ` set (groupby key df) = {k. \<exists>r\<in>set df. key r = Some k}"
proof -
  have "k \<in> fst ` set (groupby key df) \<longleftrightarrow> (\<exists>r\<in>set df. key r = Some k)" for k
  proof -
    have "k \<in> fst ` set (groupby key df) \<longleftrightarrow> (\<exists>rs. (k, rs) \<in> set (groupby key df))"
      by force
    then show ?thesis by (simp add: groupby_mem)
  qed
  then show ?thesis by blast
qed

lemma length_notna_le: "length (notna xs) \<le> length xs"
  by (induction xs rule: notna.induct) auto

lemma notna_full: "length (notna xs) = length xs \<Longrightarrow> xs = map Some (notna xs)"
proof (induction xs rule: notna.induct)
  case (2 xs)
  have "length (notna xs) \<le> length xs" by (rule length_notna_le)
  with 2 show ?case by simp
qed auto

lemma nunique_lt_length: "\<not> distinct xs \<Longrightarrow> nunique xs < length xs"
proof (rule ccontr)
  assume nd: "\<not> distinct xs" and "\<not> nunique xs < length xs"
  then have eq: "nunique xs = length xs" using nunique_le_length [of xs] by simp
  have a: "length (remdups (notna xs)) \<le> length (notna xs)" by (rule length_remdups_leq)
  have b: "length (notna xs) \<le> length xs" by (rule length_notna_le)
  from eq a b have full: "length (notna xs) = length xs"
    and same: "length (remdups (notna xs)) = length (notna xs)"
    unfolding nunique_def by linarith+
  from same have "distinct (notna xs)"
    by (metis distinct_remdups length_remdups_eq)
  then have "distinct (map Some (notna xs))" by (simp add: distinct_map)
  with notna_full [OF full] have "distinct xs" by simp
  with nd show False by simp
qed

lemma series_sum_map:
  "series_sum (map f rs) = (\<Sum>r\<leftarrow>rs. case f r of None \<Rightarrow> 0 | Some v \<Rightarrow> v)"
  unfolding series_sum_def
proof (induction rs)
  case Nil
  then show ?case by simp
next
  case (Cons r rs)
  then show ?case by (cases "f r") auto
qed

section \<open>The monthly trend\<close>

text \<open>
  The month number on a few dates: the epoch and the nanosecond before it, the last
  nanosecond of January 2017 and the first of February, the leap day of 2016 and the day
  after, and 28 February and 1 March of 2100, which is no leap year.
\<close>

lemma month_index_examples:
  "month_index 0 = 12 * 1970"
  "month_index (- 1) = 12 * 1969 + 11"
  "month_index 1485907199999999999 = 12 * 2017"
  "month_index 1485907200000000000 = 12 * 2017 + 1"
  "month_index 1456704000000000000 = 12 * 2016 + 1"
  "month_index 1456790400000000000 = 12 * 2016 + 2"
  "month_index 4107456000000000000 = 12 * 2100 + 1"
  "month_index 4107542400000000000 = 12 * 2100 + 2"
  by code_simp+

text \<open>
  Claim C1. Every row of the monthly table reports as its order count the number of
  distinct order identifiers among the Order Lines whose purchase timestamp falls in the
  row's calendar month. That number is at most the number of those lines, and strictly
  less as soon as two of them carry the same order identifier: it is never the raw row
  count of an order with several lines.
\<close>

theorem monthly_order_count_distinct:
  "\<forall>row\<in>set (prepare_monthly_data df).
     order_count row = card {oid. \<exists>r\<in>set (month_rows df (order_date row)). order_id r = Some oid} \<and>
     order_count row \<le> length (month_rows df (order_date row)) \<and>
     (\<not> distinct (map order_id (month_rows df (order_date row))) \<longrightarrow>
        order_count row < length (month_rows df (order_date row)))"
proof
  fix row
  assume "row \<in> set (prepare_monthly_data df)"
  then obtain m where row: "row = \<lparr>order_date = m,
      order_count = nunique (map order_id (month_rows df m)),
      revenue = series_sum (map price (month_rows df m))\<rparr>"
    by (auto simp: prepare_monthly_data_def Let_def get_group_groupby month_rows_def)
  have "nunique (map order_id (month_rows df m)) \<le> length (map order_id (month_rows df m))"
    by (rule nunique_le_length)
  moreover have "nunique (map order_id (month_rows df m)) < length (map order_id (month_rows df m))"
    if "\<not> distinct (map order_id (month_rows df m))"
    using that by (rule nunique_lt_length)
  ultimately show "order_count row = card {oid. \<exists>r\<in>set (month_rows df (order_date row)). order_id r = Some oid} \<and>
     order_count row \<le> length (month_rows df (order_date row)) \<and>
     (\<not> distinct (map order_id (month_rows df (order_date row))) \<longrightarrow>
        order_count row < length (month_rows df (order_date row)))"
    by (simp add: row nunique_map_card)
qed

lemma sample_monthly:
  "prepare_monthly_data sample_df =
     [\<lparr>order_date = 24204, order_count = 1, revenue = 15\<rparr>,
      \<lparr>order_date = 24205, order_count = 0, revenue = 0\<rparr>,
      \<lparr>order_date = 24206, order_count = 2, revenue = 27\<rparr>]"
  by code_simp

lemma sample_month_rows: "month_rows sample_df 24204 = [line_O1a, line_O1b]"
  by code_simp

theorem monthly_order_count_distinct_witness:
  "\<lparr>order_date = 24204, order_count = 1, revenue = 15\<rparr> \<in> set (prepare_monthly_data sample_df) \<and>
   month_rows sample_df 24204 = [line_O1a, line_O1b] \<and>
   card {oid. \<exists>r\<in>set (month_rows sample_df 24204). order_id r = Some oid} = 1 \<and>
   \<not> distinct (map order_id (month_rows sample_df 24204)) \<and>
   (1::nat) < length (month_rows sample_df 24204)"
proof -
  have mem: "\<lparr>order_date = 24204, order_count = 1, revenue = 15\<rparr> \<in> set (prepare_monthly_data sample_df)"
    by (simp add: sample_monthly)
  have nd: "\<not> distinct (map order_id (month_rows sample_df 24204))"
    by (simp add: sample_month_rows line_O1a_def line_O1b_def)
  from monthly_order_count_distinct [of sample_df, THEN bspec, OF mem] nd
  show ?thesis using mem by (simp add: sample_month_rows)
qed

lemma series_sum_null_as_zero: "series_sum (map f rs) = (\<Sum>r\<leftarrow>rs. null_as_zero (f r))"
  by (simp add: series_sum_map null_as_zero_def)

section \<open>Payment methods\<close>

lemma payment_methods_row:
  assumes "row \<in> set (payment_methods df)"
  shows "row = \<lparr>pm_payment_type = pm_payment_type row,
      pm_order_id = nunique (map order_id (payment_rows df (pm_payment_type row))),
      pm_payment_value = series_sum (map payment_value (payment_rows df (pm_payment_type row)))\<rparr>"
    and "payment_rows df (pm_payment_type row) \<noteq> []"
proof -
  from assms obtain p rs where mem: "(p, rs) \<in> set (groupby payment_type (rows df))"
    and row: "row = \<lparr>pm_payment_type = p, pm_order_id = nunique (map order_id rs),
                      pm_payment_value = series_sum (map payment_value rs)\<rparr>"
    by (auto simp: payment_methods_def)
  from mem have rs: "rs = payment_rows df p" and ex: "\<exists>r\<in>set (rows df). payment_type r = Some p"
    by (simp_all add: groupby_mem payment_rows_def)
  show "row = \<lparr>pm_payment_type = pm_payment_type row,
      pm_order_id = nunique (map order_id (payment_rows df (pm_payment_type row))),
      pm_payment_value = series_sum (map payment_value (payment_rows df (pm_payment_type row)))\<rparr>"
    by (simp add: row rs)
  show "payment_rows df (pm_payment_type row) \<noteq> []"
    using ex by (simp add: row payment_rows_def filter_empty_conv)
qed

lemma payment_methods_types:
  "map pm_payment_type (payment_methods df) = map fst (groupby payment_type (rows df))"
  by (simp add: payment_methods_def case_prod_unfold comp_def)

text \<open>
  Claim C10. The payment-method table has exactly one row for every payment type that
  occurs in the Order Lines. The row reports the number of distinct order identifiers
  among the lines of that type, and the sum of their \<^verbatim>\<open>payment_value\<close> cells. The
  evaluation after the theorem shows a type whose payment values add up to 18 while its
  prices add up to 15: the table holds the former.
\<close>

theorem payment_methods_by_type:
  "(\<forall>row\<in>set (payment_methods df).
      pm_order_id row =
        card {oid. \<exists>r\<in>set (payment_rows df (pm_payment_type row)). order_id r = Some oid} \<and>
      pm_payment_value row =
        (\<Sum>r\<leftarrow>payment_rows df (pm_payment_type row). null_as_zero (payment_value r))) \<and>
   set (map pm_payment_type (payment_methods df)) =
     {p. \<exists>r\<in>set (rows df). payment_type r = Some p} \<and>
   distinct (map pm_payment_type (payment_methods df))"
proof (intro conjI ballI)
  fix row
  assume mem: "row \<in> set (payment_methods df)"
  have "pm_order_id row = nunique (map order_id (payment_rows df (pm_payment_type row)))"
    using payment_methods_row(1) [OF mem] by (metis payment_row.select_convs(2))
  then show "pm_order_id row =
        card {oid. \<exists>r\<in>set (payment_rows df (pm_payment_type row)). order_id r = Some oid}"
    by (simp add: nunique_map_card)
  have "pm_payment_value row = series_sum (map payment_value (payment_rows df (pm_payment_type row)))"
    using payment_methods_row(1) [OF mem] by (metis payment_row.select_convs(3))
  then show "pm_payment_value row =
        (\<Sum>r\<leftarrow>payment_rows df (pm_payment_type row). null_as_zero (payment_value r))"
    by (simp add: series_sum_null_as_zero)
next
  show "set (map pm_payment_type (payment_methods df)) =
     {p. \<exists>r\<in>set (rows df). payment_type r = Some p}"
    using groupby_keys [of payment_type "rows df"] by (simp add: payment_methods_types)
next
  show "distinct (map pm_payment_type (payment_methods df))"
    by (simp add: payment_methods_types groupby_distinct)
qed

lemma sample_payment_methods:
  "payment_methods sample_df =
     [\<lparr>pm_payment_type = ''boleto'', pm_order_id = 2, pm_payment_value = 34\<rparr>,
      \<lparr>pm_payment_type = ''credit_card'', pm_order_id = 1, pm_payment_value = 18\<rparr>]"
  by code_simp

lemma sample_payment_rows: "payment_rows sample_df ''credit_card'' = [line_O1a, line_O1b]"
  by code_simp

theorem payment_methods_by_type_witness:
  "\<lparr>pm_payment_type = ''credit_card'', pm_order_id = 1, pm_payment_value = 18\<rparr>
     \<in> set (payment_methods sample_df) \<and>
   card {oid. \<exists>r\<in>set (payment_rows sample_df ''credit_card''). order_id r = Some oid} = 1 \<and>
   (\<Sum>r\<leftarrow>payment_rows sample_df ''credit_card''. null_as_zero (payment_value r)) = 18 \<and>
   (\<Sum>r\<leftarrow>payment_rows sample_df ''credit_card''. null_as_zero (price r)) = 15"
proof -
  have mem: "\<lparr>pm_payment_type = ''credit_card'', pm_order_id = 1, pm_payment_value = 18\<rparr>
     \<in> set (payment_methods sample_df)"
    by (simp add: sample_payment_methods)
  have "(\<Sum>r\<leftarrow>payment_rows sample_df ''credit_card''. null_as_zero (price r)) = 15"
    by (simp add: sample_payment_rows line_O1a_def line_O1b_def null_as_zero_def)
  with payment_methods_by_type [of sample_df, THEN conjunct1, THEN bspec, OF mem]
  show ?thesis using mem by simp
qed

section \<open>Categories\<close>

lemma map_sort_key: "map f (sort_key f xs) = sort (map f xs)"
proof (rule properties_for_sort [symmetric])
  show "mset (map f (sort_key f xs)) = mset (map f xs)" by simp
  show "sorted (map f (sort_key f xs))" by (rule sorted_sort_key)
qed

lemma sort_rev: "sort (rev xs) = sort xs"
  by (rule properties_for_sort) simp_all

lemma map_sort_values_asc: "map f (sort_values True f xs) = sort (map f xs)"
  by (simp add: sort_values_def map_sort_key)

lemma map_sort_values_desc: "map f (sort_values False f xs) = rev (sort (map f xs))"
proof -
  have "map f (sort_values False f xs) = rev (map f (sort_key f (rev xs)))"
    by (simp add: sort_values_def rev_map)
  also have "\<dots> = rev (sort (map f (rev xs)))"
    by (simp only: map_sort_key)
  also have "map f (rev xs) = rev (map f xs)"
    by (simp add: rev_map)
  finally show ?thesis by (simp only: sort_rev)
qed

lemma mset_sort_values: "mset (sort_values asc f xs) = mset xs"
  by (simp add: sort_values_def)

lemma category_sums_mem:
  "(c, s) \<in> set (category_sums (rows df)) \<longleftrightarrow>
     (\<exists>r\<in>set (rows df). product_category_name_english r = Some c) \<and>
     s = (\<Sum>r\<leftarrow>category_rows df c. null_as_zero (price r))"
proof -
  have "(c, s) \<in> set (category_sums (rows df)) \<longleftrightarrow>
        (\<exists>rs. (c, rs) \<in> set (groupby product_category_name_english (rows df)) \<and>
              s = series_sum (map price rs))"
    by (auto simp: category_sums_def)
  then show ?thesis
    by (auto simp: groupby_mem category_rows_def series_sum_null_as_zero)
qed

lemma category_stats_sums:
  "mset (map (\<lambda>row. (category row, total_sales row)) (category_stats df)) =
   mset (category_sums (rows df))"
proof -
  have "mset (map (\<lambda>row. (category row, total_sales row)) (category_stats df)) =
        image_mset (\<lambda>row. (category row, total_sales row)) (mset (category_stats df))"
    by simp
  also have "\<dots> = mset (map (\<lambda>row. (category row, total_sales row))
       (map (\<lambda>(c, rs).
              \<lparr>category = c,
               cat_order_count = nunique (map order_id rs),
               item_count = series_count (map price rs),
               min_price = series_min (map price rs),
               avg_price = series_mean (map price rs),
               max_price = series_max (map price rs),
               total_sales = series_sum (map price rs)\<rparr>)
            (groupby product_category_name_english (rows df))))"
    unfolding category_stats_def by (simp only: mset_sort_values mset_map)
  also have "\<dots> = mset (category_sums (rows df))"
    by (simp add: category_sums_def case_prod_unfold comp_def)
  finally show ?thesis .
qed

lemma set_sort_values: "set (sort_values asc f xs) = set xs"
  by (simp add: sort_values_def)

lemma category_stats_row:
  assumes "row \<in> set (category_stats df)"
  shows "total_sales row = series_sum (map price (category_rows df (category row)))"
proof -
  from assms obtain c rs where mem: "(c, rs) \<in> set (groupby product_category_name_english (rows df))"
    and c: "category row = c" and t: "total_sales row = series_sum (map price rs)"
    unfolding category_stats_def set_sort_values by auto
  from mem have "rs = category_rows df c"
    by (simp add: groupby_mem category_rows_def)
  with c t show ?thesis by simp
qed

lemma category_stats_total:
  assumes "row \<in> set (category_stats df)"
  shows "total_sales row = (\<Sum>r\<leftarrow>category_rows df (category row). null_as_zero (price r))"
  using category_stats_row [OF assms] by (simp only: series_sum_null_as_zero)

lemma category_stats_categories:
  "category ` set (category_stats df) =
     {c. \<exists>r\<in>set (rows df). product_category_name_english r = Some c}"
proof -
  have "category ` set (category_stats df) =
      set (map category (map (\<lambda>(c, rs).
              \<lparr>category = c,
               cat_order_count = nunique (map order_id rs),
               item_count = series_count (map price rs),
               min_price = series_min (map price rs),
               avg_price = series_mean (map price rs),
               max_price = series_max (map price rs),
               total_sales = series_sum (map price rs)\<rparr>)
            (groupby product_category_name_english (rows df))))"
    unfolding category_stats_def set_sort_values by (simp only: set_map)
  also have "\<dots> = fst ` set (groupby product_category_name_english (rows df))"
    by (simp add: case_prod_unfold comp_def)
  finally show ?thesis by (simp only: groupby_keys)
qed

text \<open>
  Claim C4. In the full statistics table the summed price of a category is the sum of the
  prices of all Order Lines of that category (a null price adds nothing), and the table
  has a row for every category that occurs. The table and the two rankings rest on the
  same per-category sums: the statistics table lists exactly the pairs of
  \<open>category_sums\<close>, the top view shows the first ten sums in descending order and the
  bottom view the first ten in ascending order, so that the full descending ranking is
  the reverse of the full ascending one, and with at most ten categories the sums of the
  top view are those of the bottom view read backwards.
\<close>

theorem category_totals_and_rankings:
  "(\<forall>row\<in>set (category_stats df).
      total_sales row = (\<Sum>r\<leftarrow>category_rows df (category row). null_as_zero (price r))) \<and>
   category ` set (category_stats df) =
     {c. \<exists>r\<in>set (rows df). product_category_name_english r = Some c} \<and>
   mset (map (\<lambda>row. (category row, total_sales row)) (category_stats df)) =
     mset (category_sums (rows df)) \<and>
   map snd (top_categories df) = take 10 (rev (sort (map snd (category_sums (rows df))))) \<and>
   map snd (bottom_categories df) = take 10 (sort (map snd (category_sums (rows df)))) \<and>
   (length (category_sums (rows df)) \<le> 10 \<longrightarrow>
      map snd (top_categories df) = rev (map snd (bottom_categories df)))"
proof -
  have top: "map snd (top_categories df) = take 10 (rev (sort (map snd (category_sums (rows df)))))"
    unfolding top_categories_def by (simp only: take_map [symmetric] map_sort_values_desc)
  have bottom: "map snd (bottom_categories df) = take 10 (sort (map snd (category_sums (rows df))))"
    unfolding bottom_categories_def by (simp only: take_map [symmetric] map_sort_values_asc)
  have both: "length (category_sums (rows df)) \<le> 10 \<longrightarrow>
      map snd (top_categories df) = rev (map snd (bottom_categories df))"
    by (simp add: top bottom)
  have totals: "\<forall>row\<in>set (category_stats df).
      total_sales row = (\<Sum>r\<leftarrow>category_rows df (category row). null_as_zero (price r))"
    using category_stats_total by blast
  from totals category_stats_categories [of df] category_stats_sums [of df] top bottom both
  show ?thesis by (intro conjI)
qed

lemma sample_category_data:
  "prepare_category_data sample_df =
    ([(''toys'', 35), (''garden'', 7)], [(''garden'', 7), (''toys'', 35)],
     [\<lparr>category = ''toys'', cat_order_count = 2, item_count = 3,
       min_price = Some 5, avg_price = Finite (35 / 3), max_price = Some 20,
       total_sales = 35\<rparr>,
      \<lparr>category = ''garden'', cat_order_count = 1, item_count = 1,
       min_price = Some 7, avg_price = Finite 7, max_price = Some 7,
       total_sales = 7\<rparr>])"
  by code_simp

lemma sample_category_rows: "category_rows sample_df ''toys'' = [line_O1a, line_O1b, line_O2]"
  by code_simp

lemma sample_category_sums: "category_sums (rows sample_df) = [(''garden'', 7), (''toys'', 35)]"
  by code_simp

theorem category_totals_and_rankings_witness:
  "\<lparr>category = ''toys'', cat_order_count = 2, item_count = 3,
     min_price = Some 5, avg_price = Finite (35 / 3), max_price = Some 20,
     total_sales = 35\<rparr> \<in> set (category_stats sample_df) \<and>
   (\<Sum>r\<leftarrow>category_rows sample_df ''toys''. null_as_zero (price r)) = 35 \<and>
   length (category_sums (rows sample_df)) \<le> 10 \<and>
   map snd (top_categories sample_df) = [35, 7] \<and>
   rev (map snd (bottom_categories sample_df)) = [35, 7]"
proof -
  have stats: "category_stats sample_df = snd (snd (prepare_category_data sample_df))"
    and tops: "top_categories sample_df = fst (prepare_category_data sample_df)"
    and bottoms: "bottom_categories sample_df = fst (snd (prepare_category_data sample_df))"
    by (simp_all add: prepare_category_data_def)
  have mem: "\<lparr>category = ''toys'', cat_order_count = 2, item_count = 3,
     min_price = Some 5, avg_price = Finite (35 / 3), max_price = Some 20,
     total_sales = 35\<rparr> \<in> set (category_stats sample_df)"
    by (simp add: stats sample_category_data)
  have len: "length (category_sums (rows sample_df)) \<le> 10"
    by (simp add: sample_category_sums)
  have t: "map snd (top_categories sample_df) = [35, 7]"
    by (simp add: tops sample_category_data)
  note main = category_totals_and_rankings [of sample_df]
  from main [THEN conjunct1, THEN bspec, OF mem]
  have total: "(\<Sum>r\<leftarrow>category_rows sample_df ''toys''. null_as_zero (price r)) = 35"
    by simp
  from main have "length (category_sums (rows sample_df)) \<le> 10 \<longrightarrow>
      map snd (top_categories sample_df) = rev (map snd (bottom_categories sample_df))"
    by (elim conjE)
  with len t have "rev (map snd (bottom_categories sample_df)) = [35, 7]"
    by simp
  with total mem len t show ?thesis by (intro conjI)
qed

section \<open>Delivery performance\<close>

lemma set_drop_duplicates_from: "set (drop_duplicates_from key seen df) \<subseteq> set df"
  by (induction key seen df rule: drop_duplicates_from.induct) auto

lemma set_drop_duplicates: "set (drop_duplicates key df) \<subseteq> set df"
  by (simp add: drop_duplicates_def set_drop_duplicates_from)

lemma prepare_delivery_data_source:
  assumes "d \<in> set (prepare_delivery_data df)"
  obtains r where "d = delivery_times r" and "r \<in> set (rows df)"
    and "order_delivered_customer_date r \<noteq> None"
proof -
  from assms have "d \<in> delivery_times `
      set (drop_duplicates order_id (dropna order_delivered_customer_date (rows df)))"
    unfolding prepare_delivery_data_def by (simp only: set_map)
  then obtain r where d: "d = delivery_times r"
    and r: "r \<in> set (drop_duplicates order_id (dropna order_delivered_customer_date (rows df)))"
    by (rule imageE)
  from r set_drop_duplicates [of order_id "dropna order_delivered_customer_date (rows df)"]
  have "r \<in> set (dropna order_delivered_customer_date (rows df))"
    by (rule subsetD [rotated])
  then have "r \<in> set (rows df)" "order_delivered_customer_date r \<noteq> None"
    by (simp_all add: dropna_def)
  with d show ?thesis by (rule that)
qed

lemma delivery_times_fields:
  "source_row (delivery_times r) = r"
  "actual_delivery_time (delivery_times r) =
     days_between (order_delivered_customer_date r) (order_purchase_timestamp r)"
  "estimated_delivery_time (delivery_times r) =
     days_between (order_estimated_delivery_date r) (order_purchase_timestamp r)"
  "delivery_difference (delivery_times r) =
     col_minus (estimated_delivery_time (delivery_times r)) (actual_delivery_time (delivery_times r))"
  by (simp_all add: delivery_times_def Let_def)

text \<open>
  Claim C2. Every row of the delivery table carries as \<^verbatim>\<open>delivery_difference\<close> its
  estimated delivery time minus its actual delivery time (null when one of them is null,
  which needs a missing purchase or estimate timestamp); the two times are the whole days
  from the purchase to the estimated and to the actual delivery of the row it was made
  from. That row is a row of the loaded table and has a customer-delivery timestamp: no
  row of the loaded table without one appears in the delivery table.
\<close>

theorem delivery_difference_exact:
  "(\<forall>d\<in>set (prepare_delivery_data df).
      delivery_difference d = col_minus (estimated_delivery_time d) (actual_delivery_time d) \<and>
      (\<forall>e a. estimated_delivery_time d = Some e \<and> actual_delivery_time d = Some a \<longrightarrow>
             delivery_difference d = Some (e - a)) \<and>
      actual_delivery_time d =
        days_between (order_delivered_customer_date (source_row d))
                     (order_purchase_timestamp (source_row d)) \<and>
      estimated_delivery_time d =
        days_between (order_estimated_delivery_date (source_row d))
                     (order_purchase_timestamp (source_row d)) \<and>
      source_row d \<in> set (rows df) \<and>
      order_delivered_customer_date (source_row d) \<noteq> None) \<and>
   (\<forall>r\<in>set (rows df). order_delivered_customer_date r = None \<longrightarrow>
      r \<notin> source_row ` set (prepare_delivery_data df))"
proof (intro conjI ballI impI)
  fix d
  assume mem: "d \<in> set (prepare_delivery_data df)"
  from mem obtain r where d: "d = delivery_times r" and r: "r \<in> set (rows df)"
    and delivered: "order_delivered_customer_date r \<noteq> None"
    by (rule prepare_delivery_data_source)
  show diff: "delivery_difference d = col_minus (estimated_delivery_time d) (actual_delivery_time d)"
    unfolding d by (rule delivery_times_fields(4))
  show "\<forall>e a. estimated_delivery_time d = Some e \<and> actual_delivery_time d = Some a \<longrightarrow>
             delivery_difference d = Some (e - a)"
    unfolding diff by (simp add: col_minus_def)
  show "actual_delivery_time d =
        days_between (order_delivered_customer_date (source_row d))
                     (order_purchase_timestamp (source_row d))"
    unfolding d by (simp only: delivery_times_fields)
  show "estimated_delivery_time d =
        days_between (order_estimated_delivery_date (source_row d))
                     (order_purchase_timestamp (source_row d))"
    unfolding d by (simp only: delivery_times_fields)
  show "source_row d \<in> set (rows df)"
    unfolding d using r by (simp only: delivery_times_fields)
  show "order_delivered_customer_date (source_row d) \<noteq> None"
    unfolding d using delivered by (simp only: delivery_times_fields not_False_eq_True)
next
  fix r
  assume "r \<in> set (rows df)" and null: "order_delivered_customer_date r = None"
  show "r \<notin> source_row ` set (prepare_delivery_data df)"
  proof
    assume "r \<in> source_row ` set (prepare_delivery_data df)"
    then obtain d where mem: "d \<in> set (prepare_delivery_data df)" and rd: "r = source_row d"
      by (rule imageE)
    from mem obtain r' where d: "d = delivery_times r'"
      and nn: "order_delivered_customer_date r' \<noteq> None"
      by (rule prepare_delivery_data_source)
    have "r = r'" unfolding rd d by (rule delivery_times_fields(1))
    with nn null show False by simp
  qed
qed

lemma sample_delivery_data:
  "prepare_delivery_data sample_df =
     [\<lparr>source_row = line_O1a, actual_delivery_time = Some 5,
       estimated_delivery_time = Some 10, delivery_difference = Some 5\<rparr>,
      \<lparr>source_row = line_O3, actual_delivery_time = Some 12,
       estimated_delivery_time = Some 9, delivery_difference = Some (- 3)\<rparr>]"
  by code_simp

theorem delivery_difference_exact_witness:
  "\<lparr>source_row = line_O3, actual_delivery_time = Some 12,
     estimated_delivery_time = Some 9, delivery_difference = Some (- 3)\<rparr>
     \<in> set (prepare_delivery_data sample_df) \<and>
   col_minus (Some 9) (Some 12) = Some (- 3) \<and>
   line_O2 \<in> set (rows sample_df) \<and>
   order_delivered_customer_date line_O2 = None \<and>
   line_O2 \<notin> source_row ` set (prepare_delivery_data sample_df)"
proof -
  have mem: "\<lparr>source_row = line_O3, actual_delivery_time = Some 12,
     estimated_delivery_time = Some 9, delivery_difference = Some (- 3)\<rparr>
     \<in> set (prepare_delivery_data sample_df)"
    unfolding sample_delivery_data by simp
  have row: "line_O2 \<in> set (rows sample_df)" by (simp add: sample_df_def)
  have null: "order_delivered_customer_date line_O2 = None" by (simp add: line_O2_def)
  note main = delivery_difference_exact [of sample_df]
  from main have a: "\<forall>d\<in>set (prepare_delivery_data sample_df).
      delivery_difference d = col_minus (estimated_delivery_time d) (actual_delivery_time d)"
    by blast
  from a mem have "delivery_difference \<lparr>source_row = line_O3, actual_delivery_time = Some 12,
     estimated_delivery_time = Some 9, delivery_difference = Some (- 3)\<rparr> =
     col_minus (estimated_delivery_time \<lparr>source_row = line_O3, actual_delivery_time = Some 12,
     estimated_delivery_time = Some 9, delivery_difference = Some (- 3)\<rparr>)
      (actual_delivery_time \<lparr>source_row = line_O3, actual_delivery_time = Some 12,
     estimated_delivery_time = Some 9, delivery_difference = Some (- 3)\<rparr>)"
    by (rule bspec)
  then have diff: "col_minus (Some 9) (Some 12) = Some (- 3)" by simp
  from main have b: "\<forall>r\<in>set (rows sample_df). order_delivered_customer_date r = None \<longrightarrow>
      r \<notin> source_row ` set (prepare_delivery_data sample_df)"
    by (rule conjunct2)
  from b row have "order_delivered_customer_date line_O2 = None \<longrightarrow>
      line_O2 \<notin> source_row ` set (prepare_delivery_data sample_df)"
    by (rule bspec)
  with null have out: "line_O2 \<notin> source_row ` set (prepare_delivery_data sample_df)"
    by (rule rev_mp)
  from mem diff row null out show ?thesis by (intro conjI)
qed

section \<open>On-time delivery rate\<close>

lemma ge_zero_on_time: "ge_zero (delivery_difference d) = on_time d"
  by (cases "delivery_difference d") (simp_all add: ge_zero_def on_time_def)

lemma count_true_map: "length (filter (\<lambda>b. b) (map P xs)) = length (filter P xs)"
  by (induction xs) simp_all

lemma on_time_rate_eq:
  "on_time_rate ds =
     (if ds = [] then NaN
      else Finite (100 * of_nat (length (filter on_time ds)) / of_nat (length ds)))"
proof (cases "ds = []")
  case True
  then show ?thesis by (simp add: on_time_rate_def bool_mean_def fdiv_def)
next
  case False
  then have "(of_nat (length ds) :: rat) \<noteq> 0" by simp
  then show ?thesis
    using False
    by (simp add: on_time_rate_def bool_mean_def fdiv_def ge_zero_on_time comp_def)
qed

lemma percentage_bounds:
  fixes k n :: nat
  assumes "k \<le> n" "0 < n"
  shows "(0::rat) \<le> 100 * of_nat k / of_nat n" "100 * of_nat k / of_nat n \<le> (100::rat)"
proof -
  show "(0::rat) \<le> 100 * of_nat k / of_nat n" by simp
  have "(of_nat k :: rat) \<le> of_nat n" using assms by simp
  moreover have "(0::rat) < of_nat n" using assms by simp
  ultimately have "(of_nat k :: rat) / of_nat n \<le> 1" by (simp add: divide_le_eq_1)
  then have "100 * ((of_nat k :: rat) / of_nat n) \<le> 100 * 1"
    by (rule mult_left_mono) simp
  then show "100 * of_nat k / of_nat n \<le> (100::rat)" by simp
qed


text \<open>
  Claim C3, as amended. For a delivery table with at least one row, the on-time delivery
  rate is 100 times the number of rows whose difference is present and not negative,
  divided by the number of all rows, and lies between 0 and 100. For a delivery table
  without rows (no delivered order in the input) the rate is NaN.
\<close>

theorem on_time_delivery_rate_value:
  "on_time_delivery_rate df =
     (if prepare_delivery_data df = [] then NaN
      else Finite (100 * of_nat (length (filter on_time (prepare_delivery_data df))) /
                   of_nat (length (prepare_delivery_data df)))) \<and>
   (prepare_delivery_data df \<noteq> [] \<longrightarrow>
      0 \<le> 100 * (of_nat (length (filter on_time (prepare_delivery_data df))) :: rat) /
             of_nat (length (prepare_delivery_data df)) \<and>
      100 * (of_nat (length (filter on_time (prepare_delivery_data df))) :: rat) /
             of_nat (length (prepare_delivery_data df)) \<le> 100)"
proof (intro conjI impI)
  show "on_time_delivery_rate df =
     (if prepare_delivery_data df = [] then NaN
      else Finite (100 * of_nat (length (filter on_time (prepare_delivery_data df))) /
                   of_nat (length (prepare_delivery_data df))))"
    unfolding on_time_delivery_rate_def by (rule on_time_rate_eq)
next
  assume ne: "prepare_delivery_data df \<noteq> []"
  have le: "length (filter on_time (prepare_delivery_data df)) \<le> length (prepare_delivery_data df)"
    by (rule length_filter_le)
  from ne have pos: "0 < length (prepare_delivery_data df)" by simp
  show "0 \<le> 100 * (of_nat (length (filter on_time (prepare_delivery_data df))) :: rat) /
             of_nat (length (prepare_delivery_data df))"
    by (rule percentage_bounds(1) [OF le pos])
  show "100 * (of_nat (length (filter on_time (prepare_delivery_data df))) :: rat) /
             of_nat (length (prepare_delivery_data df)) \<le> 100"
    by (rule percentage_bounds(2) [OF le pos])
qed

lemma sample_on_time: "filter on_time (prepare_delivery_data sample_df) =
     [\<lparr>source_row = line_O1a, actual_delivery_time = Some 5,
       estimated_delivery_time = Some 10, delivery_difference = Some 5\<rparr>]"
  unfolding sample_delivery_data by (simp add: on_time_def)

theorem on_time_delivery_rate_value_witness:
  "prepare_delivery_data sample_df \<noteq> [] \<and>
   on_time_delivery_rate sample_df = Finite 50 \<and>
   (0::rat) \<le> 50 \<and> (50::rat) \<le> 100"
proof -
  have ne: "prepare_delivery_data sample_df \<noteq> []"
    unfolding sample_delivery_data by simp
  have len: "length (prepare_delivery_data sample_df) = 2"
    unfolding sample_delivery_data by simp
  have cnt: "length (filter on_time (prepare_delivery_data sample_df)) = 1"
    unfolding sample_on_time by simp
  from on_time_delivery_rate_value [of sample_df]
  have "on_time_delivery_rate sample_df =
     (if prepare_delivery_data sample_df = [] then NaN
      else Finite (100 * of_nat (length (filter on_time (prepare_delivery_data sample_df))) /
                   of_nat (length (prepare_delivery_data sample_df))))"
    by (rule conjunct1)
  with ne have "on_time_delivery_rate sample_df = Finite (100 * of_nat 1 / of_nat 2)"
    by (simp only: len cnt if_False)
  then have "on_time_delivery_rate sample_df = Finite 50" by simp
  with ne show ?thesis by simp
qed

lemma undelivered_delivery_data: "prepare_delivery_data undelivered_df = []"
  by code_simp

text \<open>
  The claim as stated, for every input: a table whose only order is not delivered yet has
  an empty delivery table, and its rate is NaN, which is no number between 0 and 100.
\<close>

theorem on_time_delivery_rate_counterexample:
  "prepare_delivery_data undelivered_df = [] \<and>
   on_time_delivery_rate undelivered_df = NaN \<and>
   \<not> (\<exists>q. on_time_delivery_rate undelivered_df = Finite q \<and> 0 \<le> q \<and> q \<le> 100)"
proof -
  have "on_time_delivery_rate undelivered_df = NaN"
    unfolding on_time_delivery_rate_def undelivered_delivery_data
    by (simp add: on_time_rate_def bool_mean_def fdiv_def)
  then show ?thesis by (simp add: undelivered_delivery_data)
qed

section \<open>Recency, frequency, monetary\<close>

lemma fold_max_ge: "(y::'a::linorder) \<le> fold max ys y"
  by (induction ys arbitrary: y) (auto intro: order_trans [OF max.cobounded2])

lemma fold_max_ge_elem: "x \<in> set ys \<Longrightarrow> (x::'a::linorder) \<le> fold max ys y"
proof (induction ys arbitrary: y)
  case Nil
  then show ?case by simp
next
  case (Cons z zs)
  show ?case
  proof (cases "x = z")
    case True
    have "x \<le> max z y" using True by simp
    also have "\<dots> \<le> fold max zs (max z y)" by (rule fold_max_ge)
    finally show ?thesis by simp
  next
    case False
    with Cons.prems have "x \<in> set zs" by simp
    then have "x \<le> fold max zs (max z y)" by (rule Cons.IH)
    then show ?thesis by simp
  qed
qed

lemma series_max_ge:
  assumes "Some x \<in> set xs"
  obtains m where "series_max xs = Some m" and "x \<le> m"
proof -
  from assms have mem: "x \<in> set (notna xs)" by (simp add: set_notna)
  then obtain y ys where ys: "notna xs = y # ys" by (cases "notna xs") auto
  have m: "series_max xs = Some (fold max ys y)" by (simp add: series_max_def ys)
  from mem ys have "x = y \<or> x \<in> set ys" by simp
  then have "x \<le> fold max ys y"
    using fold_max_ge [of y ys] fold_max_ge_elem [of x ys y] by blast
  with m show ?thesis by (rule that)
qed

lemma fold_max_mem: "fold max ys (y::'a::linorder) \<in> insert y (set ys)"
proof (induction ys arbitrary: y)
  case Nil
  then show ?case by simp
next
  case (Cons z zs)
  have "fold max zs (max z y) \<in> insert (max z y) (set zs)" by (rule Cons.IH)
  moreover have "max z y = z \<or> max z y = y" by (auto simp: max_def)
  ultimately show ?case by auto
qed

lemma series_max_mem: "series_max xs = Some m \<Longrightarrow> Some m \<in> set xs"
proof -
  assume a: "series_max xs = Some m"
  then obtain y ys where ys: "notna xs = y # ys" and m: "m = fold max ys y"
    by (cases "notna xs") (auto simp: series_max_def)
  have "m \<in> insert y (set ys)" unfolding m by (rule fold_max_mem)
  then have "m \<in> set (notna xs)" by (simp add: ys)
  then show ?thesis by (simp add: set_notna)
qed

lemma series_max_None: "series_max xs = None \<longleftrightarrow> (\<forall>x. Some x \<notin> set xs)"
proof
  assume "series_max xs = None"
  then have "notna xs = []" by (cases "notna xs") (auto simp: series_max_def)
  then have "set (notna xs) = {}" by simp
  then show "\<forall>x. Some x \<notin> set xs" by (simp add: set_notna)
next
  assume "\<forall>x. Some x \<notin> set xs"
  then have "set (notna xs) = {}" by (simp add: set_notna)
  then show "series_max xs = None" by (simp add: series_max_def)
qed

lemma prepare_rfm_data_row:
  assumes "row \<in> set (prepare_rfm_data df)"
  shows "recency row =
           days_between (recent_date (rows df)) (last_purchase df (rfm_customer_id row))"
proof -
  from assms obtain c rs where mem: "(c, rs) \<in> set (groupby customer_id (rows df))"
    and c: "rfm_customer_id row = c"
    and rec: "recency row = days_between (recent_date (rows df))
                (series_max (map order_purchase_timestamp rs))"
    unfolding prepare_rfm_data_def by auto
  from mem have "rs = customer_rows df c"
    by (simp add: groupby_mem customer_rows_def)
  with c rec show ?thesis by (simp add: last_purchase_def)
qed

lemma last_purchase_le_recent:
  assumes "last_purchase df c = Some t"
  obtains g where "recent_date (rows df) = Some g" and "t \<le> g"
proof -
  from assms have "Some t \<in> set (map order_purchase_timestamp (customer_rows df c))"
    unfolding last_purchase_def by (rule series_max_mem)
  then have "Some t \<in> set (map order_purchase_timestamp (rows df))"
    by (auto simp: customer_rows_def)
  then obtain g where "series_max (map order_purchase_timestamp (rows df)) = Some g" and "t \<le> g"
    by (rule series_max_ge)
  then show ?thesis unfolding recent_date_def [symmetric] by (rule that)
qed

lemma td_days_nonneg: "t \<le> g \<Longrightarrow> 0 \<le> td_days (g - t)"
  by (simp add: td_days_def ns_per_day_def pos_imp_zdiv_nonneg_iff)

lemma recent_date_is_maximum:
  assumes "recent_date (rows df) = Some g"
  shows "(\<exists>r\<in>set (rows df). order_purchase_timestamp r = Some g) \<and>
         (\<forall>r\<in>set (rows df). \<forall>t. order_purchase_timestamp r = Some t \<longrightarrow> t \<le> g)"
proof
  from assms have "Some g \<in> set (map order_purchase_timestamp (rows df))"
    unfolding recent_date_def by (rule series_max_mem)
  then show "\<exists>r\<in>set (rows df). order_purchase_timestamp r = Some g" by auto
next
  show "\<forall>r\<in>set (rows df). \<forall>t. order_purchase_timestamp r = Some t \<longrightarrow> t \<le> g"
  proof (intro ballI allI impI)
    fix r t
    assume "r \<in> set (rows df)" and "order_purchase_timestamp r = Some t"
    then have "Some t \<in> set (map order_purchase_timestamp (rows df))" by force
    then obtain m where "series_max (map order_purchase_timestamp (rows df)) = Some m" and "t \<le> m"
      by (rule series_max_ge)
    with assms show "t \<le> g" by (simp add: recent_date_def)
  qed
qed

text \<open>
  Claim C5, as amended. The recency of every customer is the whole number of days from the
  customer's last purchase to \<open>recent_date\<close>, the latest purchase timestamp of the whole
  table: one value, the same for all customers, which is a purchase timestamp of the table
  and bounds every other. For a customer with a purchase timestamp the recency is
  therefore not negative, and it is 0 when the customer's last purchase is that latest
  timestamp. A customer none of whose lines has a purchase timestamp gets a null recency.
\<close>

theorem rfm_recency:
  "(\<forall>row\<in>set (prepare_rfm_data df).
      recency row =
        days_between (recent_date (rows df)) (last_purchase df (rfm_customer_id row)) \<and>
      (\<forall>t. last_purchase df (rfm_customer_id row) = Some t \<longrightarrow>
         (\<exists>g. recent_date (rows df) = Some g \<and> t \<le> g \<and>
              recency row = Some (td_days (g - t)) \<and> 0 \<le> td_days (g - t))) \<and>
      (\<forall>t. last_purchase df (rfm_customer_id row) = Some t \<and> recent_date (rows df) = Some t \<longrightarrow>
         recency row = Some 0) \<and>
      (last_purchase df (rfm_customer_id row) = None \<longrightarrow> recency row = None)) \<and>
   (\<forall>g. recent_date (rows df) = Some g \<longrightarrow>
      (\<exists>r\<in>set (rows df). order_purchase_timestamp r = Some g) \<and>
      (\<forall>r\<in>set (rows df). \<forall>t. order_purchase_timestamp r = Some t \<longrightarrow> t \<le> g))"
proof (intro conjI ballI allI impI)
  fix row
  assume mem: "row \<in> set (prepare_rfm_data df)"
  show rec: "recency row =
        days_between (recent_date (rows df)) (last_purchase df (rfm_customer_id row))"
    using mem by (rule prepare_rfm_data_row)
  {
    fix t
    assume last: "last_purchase df (rfm_customer_id row) = Some t"
    then obtain g where g: "recent_date (rows df) = Some g" and le: "t \<le> g"
      by (rule last_purchase_le_recent)
    have "recency row = Some (td_days (g - t))"
      unfolding rec last g by (simp add: days_between_def)
    moreover have "0 \<le> td_days (g - t)" using le by (rule td_days_nonneg)
    ultimately show "\<exists>g. recent_date (rows df) = Some g \<and> t \<le> g \<and>
              recency row = Some (td_days (g - t)) \<and> 0 \<le> td_days (g - t)"
      using g le by blast
  }
  {
    fix t
    assume "last_purchase df (rfm_customer_id row) = Some t \<and> recent_date (rows df) = Some t"
    then show "recency row = Some 0"
      unfolding rec by (simp add: days_between_def td_days_def)
  }
  {
    assume "last_purchase df (rfm_customer_id row) = None"
    then show "recency row = None"
      unfolding rec by (simp add: days_between_def split: option.split)
  }
next
  fix g
  assume g: "recent_date (rows df) = Some g"
  from recent_date_is_maximum [OF g]
  show "\<exists>r\<in>set (rows df). order_purchase_timestamp r = Some g" by (rule conjunct1)
next
  fix g r t
  assume g: "recent_date (rows df) = Some g" and r: "r \<in> set (rows df)"
    and t: "order_purchase_timestamp r = Some t"
  from recent_date_is_maximum [OF g] r t show "t \<le> g" by blast
qed

lemma sample_rfm_data:
  "prepare_rfm_data sample_df =
     [\<lparr>rfm_customer_id = ''C1'', frequency = 2, monetary = 22, recency = Some 0\<rparr>,
      \<lparr>rfm_customer_id = ''C2'', frequency = 1, monetary = 20, recency = Some 2\<rparr>]"
  by code_simp

lemma sample_last_purchase:
  "last_purchase sample_df ''C1'' = Some 1489320000000000000"
  "last_purchase sample_df ''C2'' = Some 1489104000000000000"
  "recent_date (rows sample_df) = Some 1489320000000000000"
  by code_simp+

theorem rfm_recency_witness:
  "\<lparr>rfm_customer_id = ''C2'', frequency = 1, monetary = 20, recency = Some 2\<rparr>
     \<in> set (prepare_rfm_data sample_df) \<and>
   last_purchase sample_df ''C2'' = Some 1489104000000000000 \<and>
   recent_date (rows sample_df) = Some 1489320000000000000 \<and>
   td_days (1489320000000000000 - 1489104000000000000) = 2 \<and>
   \<lparr>rfm_customer_id = ''C1'', frequency = 2, monetary = 22, recency = Some 0\<rparr>
     \<in> set (prepare_rfm_data sample_df) \<and>
   last_purchase sample_df ''C1'' = recent_date (rows sample_df)"
proof -
  have mem2: "\<lparr>rfm_customer_id = ''C2'', frequency = 1, monetary = 20, recency = Some 2\<rparr>
     \<in> set (prepare_rfm_data sample_df)"
    unfolding sample_rfm_data by simp
  have mem1: "\<lparr>rfm_customer_id = ''C1'', frequency = 2, monetary = 22, recency = Some 0\<rparr>
     \<in> set (prepare_rfm_data sample_df)"
    unfolding sample_rfm_data by simp
  note main = rfm_recency [of sample_df, THEN conjunct1, THEN bspec, OF mem2]
  from main have "recency \<lparr>rfm_customer_id = ''C2'', frequency = 1, monetary = 20, recency = Some 2\<rparr> =
        days_between (recent_date (rows sample_df))
          (last_purchase sample_df (rfm_customer_id
             \<lparr>rfm_customer_id = ''C2'', frequency = 1, monetary = 20, recency = Some 2\<rparr>))"
    by (rule conjunct1)
  then have "Some 2 = days_between (Some 1489320000000000000) (Some 1489104000000000000)"
    by (simp add: sample_last_purchase)
  then have "td_days (1489320000000000000 - 1489104000000000000) = 2"
    by (simp add: days_between_def)
  with mem1 mem2 sample_last_purchase show ?thesis by simp
qed

lemma no_purchase_rfm_data:
  "prepare_rfm_data no_purchase_df =
     [\<lparr>rfm_customer_id = ''C1'', frequency = 1, monetary = 10, recency = Some 0\<rparr>,
      \<lparr>rfm_customer_id = ''C3'', frequency = 1, monetary = 20, recency = None\<rparr>]"
  by code_simp

text \<open>
  The claim as stated, for every customer: the customer C3 below has one Order Line, without
  a purchase timestamp, and its recency is null, not a number that is at least 0.
\<close>

theorem rfm_recency_counterexample:
  "\<lparr>rfm_customer_id = ''C3'', frequency = 1, monetary = 20, recency = None\<rparr>
     \<in> set (prepare_rfm_data no_purchase_df) \<and>
   \<not> (\<forall>row\<in>set (prepare_rfm_data no_purchase_df). \<exists>d. recency row = Some d \<and> 0 \<le> d)"
  unfolding no_purchase_rfm_data by simp

section \<open>Review scores\<close>

text \<open>
  Claim C8. Without a \<^verbatim>\<open>review_score\<close> column the review distribution is the placeholder
  with a count of zero for each of the scores 1 to 5 and the average review score is 0.
  Both places that draw the reviews go on: the overview chart gets the placeholder and the
  average 0, and the review section of the additional insights is skipped.
\<close>

theorem missing_review_score_degrades:
  "\<not> has_review_score df \<longrightarrow>
     review_distribution df = [(1, 0), (2, 0), (3, 0), (4, 0), (5, 0)] \<and>
     avg_review_score df = Finite 0 \<and>
     overview_review_chart df = ([(1, 0), (2, 0), (3, 0), (4, 0), (5, 0)], Finite 0) \<and>
     insights_review_section df = None"
proof
  assume no: "\<not> has_review_score df"
  have dist: "review_distribution df = [(1, 0), (2, 0), (3, 0), (4, 0), (5, 0)]"
    using no by (simp add: review_distribution_def)
  have avg: "avg_review_score df = Finite 0"
    using no by (simp add: avg_review_score_def)
  have sorted: "sort_values True fst [(1::int, 0::nat), (2, 0), (3, 0), (4, 0), (5, 0)] =
      [(1, 0), (2, 0), (3, 0), (4, 0), (5, 0)]"
    by (simp add: sort_values_def)
  have chart: "overview_review_chart df = ([(1, 0), (2, 0), (3, 0), (4, 0), (5, 0)], Finite 0)"
    unfolding overview_review_chart_def dist avg sorted by (rule refl)
  have skipped: "insights_review_section df = None"
    using no by (simp add: insights_review_section_def)
  from dist avg chart skipped
  show "review_distribution df = [(1, 0), (2, 0), (3, 0), (4, 0), (5, 0)] \<and>
     avg_review_score df = Finite 0 \<and>
     overview_review_chart df = ([(1, 0), (2, 0), (3, 0), (4, 0), (5, 0)], Finite 0) \<and>
     insights_review_section df = None"
    by (intro conjI)
qed

lemma no_review_column: "\<not> has_review_score no_review_df"
  by (simp add: has_review_score_def no_review_df_def all_columns_def)

theorem missing_review_score_degrades_witness:
  "\<not> has_review_score no_review_df \<and>
   review_distribution no_review_df = [(1, 0), (2, 0), (3, 0), (4, 0), (5, 0)] \<and>
   avg_review_score no_review_df = Finite 0 \<and>
   insights_review_section no_review_df = None"
proof -
  from missing_review_score_degrades [of no_review_df] no_review_column
  have "review_distribution no_review_df = [(1, 0), (2, 0), (3, 0), (4, 0), (5, 0)] \<and>
     avg_review_score no_review_df = Finite 0 \<and>
     overview_review_chart no_review_df = ([(1, 0), (2, 0), (3, 0), (4, 0), (5, 0)], Finite 0) \<and>
     insights_review_section no_review_df = None"
    by (rule mp)
  with no_review_column show ?thesis by simp
qed

section \<open>Ratios with a zero denominator\<close>

lemma fdiv_zero: "fdiv n 0 = zero_division n"
  by (simp add: fdiv_def zero_division_def)

lemma nunique_zero: "nunique xs = 0 \<longleftrightarrow> notna xs = []"
  by (simp add: nunique_def)

lemma notna_empty_all_null: "notna xs = [] \<Longrightarrow> x \<in> set xs \<Longrightarrow> x = None"
proof -
  assume e: "notna xs = []" and x: "x \<in> set xs"
  show "x = None"
  proof (cases x)
    case None
    then show ?thesis .
  next
    case (Some y)
    with x have "y \<in> set (notna xs)" by (simp add: set_notna)
    with e show ?thesis by simp
  qed
qed

lemma no_orders_all_null:
  assumes "nunique (map order_id rs) = 0"
  shows "\<forall>r\<in>set rs. order_id r = None"
proof
  fix r
  assume "r \<in> set rs"
  then have "order_id r \<in> set (map order_id rs)" by simp
  moreover from assms have "notna (map order_id rs) = []" by (simp only: nunique_zero)
  ultimately show "order_id r = None" by (rule notna_empty_all_null [rotated])
qed

lemma no_orders_no_rows:
  assumes "nunique (map order_id rs) = 0" and "\<forall>r\<in>set rs. order_id r \<noteq> None"
  shows "rs = []"
proof (cases rs)
  case Nil
  then show ?thesis .
next
  case (Cons r rs')
  then have "r \<in> set rs" by simp
  with no_orders_all_null [OF assms(1)] assms(2) show ?thesis by blast
qed

lemma prepare_monthly_data_row:
  assumes "row \<in> set (prepare_monthly_data df)"
  shows "order_count row = nunique (map order_id (month_rows df (order_date row)))"
    and "revenue row = series_sum (map price (month_rows df (order_date row)))"
proof -
  from assms obtain m where row: "row = \<lparr>order_date = m,
      order_count = nunique (map order_id (month_rows df m)),
      revenue = series_sum (map price (month_rows df m))\<rparr>"
    by (auto simp: prepare_monthly_data_def Let_def get_group_groupby month_rows_def)
  show "order_count row = nunique (map order_id (month_rows df (order_date row)))"
    by (simp add: row)
  show "revenue row = series_sum (map price (month_rows df (order_date row)))"
    by (simp add: row)
qed

lemma avg_order_value_no_orders:
  assumes "total_orders df = 0" and "rows df \<noteq> []"
  shows "avg_order_value df = Inr (zero_division (\<Sum>r\<leftarrow>rows df. null_as_zero (price r)))"
  using assms
  by (simp add: avg_order_value_def fdiv_zero total_revenue_def series_sum_null_as_zero)

lemma monthly_avg_no_orders:
  assumes "row \<in> set (prepare_monthly_data df)" and "order_count row = 0"
  shows "monthly_avg_order_value row =
           zero_division (\<Sum>r\<leftarrow>month_rows df (order_date row). null_as_zero (price r))"
  using assms(2)
  by (simp add: monthly_avg_order_value_def fdiv_zero prepare_monthly_data_row(2) [OF assms(1)]
      series_sum_null_as_zero)

text \<open>
  Claim C6, as amended. With zero distinct orders the overall average order value raises
  \<^verbatim>\<open>ZeroDivisionError\<close> when the table has no rows, and a table without rows is the only
  one for which it raises. When the table has rows, none of them has an order identifier,
  and the value is NaN if their prices add up to zero and an infinity with the sign of that
  sum otherwise. So when every Order Line has an order identifier, zero distinct orders
  means a table without rows, and the division raises. The average order value of a month
  is a division of columns and does not raise: in a month with an order count of zero no
  line has an order identifier, and the value is NaN or an infinity by the sum of the
  prices of the month's lines; when every Order Line has an order identifier such a month
  has no lines, its revenue is zero and the value is NaN.
\<close>

theorem zero_denominator_values:
  "((\<exists>e. avg_order_value df = Inl e) \<longleftrightarrow> rows df = []) \<and>
   (total_orders df = 0 \<longrightarrow>
      (rows df = [] \<longrightarrow> avg_order_value df = Inl ZeroDivisionError) \<and>
      (rows df \<noteq> [] \<longrightarrow>
         (\<forall>r\<in>set (rows df). order_id r = None) \<and>
         avg_order_value df = Inr (zero_division (\<Sum>r\<leftarrow>rows df. null_as_zero (price r))))) \<and>
   ((\<forall>r\<in>set (rows df). order_id r \<noteq> None) \<and> total_orders df = 0 \<longrightarrow>
      rows df = [] \<and> avg_order_value df = Inl ZeroDivisionError) \<and>
   (\<forall>row\<in>set (prepare_monthly_data df). order_count row = 0 \<longrightarrow>
      (\<forall>r\<in>set (month_rows df (order_date row)). order_id r = None) \<and>
      monthly_avg_order_value row =
        zero_division (\<Sum>r\<leftarrow>month_rows df (order_date row). null_as_zero (price r))) \<and>
   ((\<forall>r\<in>set (rows df). order_id r \<noteq> None) \<longrightarrow>
      (\<forall>row\<in>set (prepare_monthly_data df). order_count row = 0 \<longrightarrow>
         month_rows df (order_date row) = [] \<and> revenue row = 0 \<and>
         monthly_avg_order_value row = NaN))"
proof (intro conjI ballI impI)
  show "(\<exists>e. avg_order_value df = Inl e) \<longleftrightarrow> rows df = []"
    by (simp add: avg_order_value_def)
next
  assume "rows df = []"
  then show "avg_order_value df = Inl ZeroDivisionError"
    by (simp add: avg_order_value_def)
next
  fix r
  assume "total_orders df = 0" and "r \<in> set (rows df)"
  then show "order_id r = None"
    using no_orders_all_null [of "rows df"] by (simp add: total_orders_def)
next
  assume "total_orders df = 0" and "rows df \<noteq> []"
  then show "avg_order_value df = Inr (zero_division (\<Sum>r\<leftarrow>rows df. null_as_zero (price r)))"
    by (rule avg_order_value_no_orders)
next
  assume a: "(\<forall>r\<in>set (rows df). order_id r \<noteq> None) \<and> total_orders df = 0"
  then have "nunique (map order_id (rows df)) = 0" by (simp add: total_orders_def)
  moreover from a have "\<forall>r\<in>set (rows df). order_id r \<noteq> None" by (rule conjunct1)
  ultimately show e: "rows df = []" by (rule no_orders_no_rows)
  then show "avg_order_value df = Inl ZeroDivisionError" by (simp add: avg_order_value_def)
next
  fix row r
  assume mem: "row \<in> set (prepare_monthly_data df)" and zero: "order_count row = 0"
    and r: "r \<in> set (month_rows df (order_date row))"
  from zero have "nunique (map order_id (month_rows df (order_date row))) = 0"
    by (simp only: prepare_monthly_data_row(1) [OF mem])
  then have "\<forall>r\<in>set (month_rows df (order_date row)). order_id r = None"
    by (rule no_orders_all_null)
  then show "order_id r = None" using r by (rule bspec)
next
  fix row
  assume "row \<in> set (prepare_monthly_data df)" and "order_count row = 0"
  then show "monthly_avg_order_value row =
        zero_division (\<Sum>r\<leftarrow>month_rows df (order_date row). null_as_zero (price r))"
    by (rule monthly_avg_no_orders)
next
  fix row
  assume ids: "\<forall>r\<in>set (rows df). order_id r \<noteq> None"
    and mem: "row \<in> set (prepare_monthly_data df)" and zero: "order_count row = 0"
  from zero have "nunique (map order_id (month_rows df (order_date row))) = 0"
    by (simp only: prepare_monthly_data_row(1) [OF mem])
  moreover from ids have "\<forall>r\<in>set (month_rows df (order_date row)). order_id r \<noteq> None"
    by (simp add: month_rows_def)
  ultimately show none: "month_rows df (order_date row) = []" by (rule no_orders_no_rows)
  then show rev: "revenue row = 0"
    by (simp add: prepare_monthly_data_row(2) [OF mem] series_sum_def)
  show "monthly_avg_order_value row = NaN"
    by (simp add: monthly_avg_order_value_def fdiv_zero zero_division_def rev zero)
qed


lemma empty_values: "total_orders empty_df = 0" "rows empty_df = []"
  "avg_order_value empty_df = Inl ZeroDivisionError"
  by (simp_all add: empty_df_def total_orders_def nunique_def avg_order_value_def)

lemma null_id_values:
  "total_orders null_id_df = 0" "rows null_id_df = [line_null_id]"
  "(\<Sum>r\<leftarrow>rows null_id_df. null_as_zero (price r)) = 10"
  "avg_order_value null_id_df = Inr PosInf"
  "prepare_monthly_data null_id_df = [\<lparr>order_date = 24206, order_count = 0, revenue = 10\<rparr>]"
  "monthly_avg_order_value \<lparr>order_date = 24206, order_count = 0, revenue = 10\<rparr> = PosInf"
  by code_simp+

lemma sample_ids: "\<forall>r\<in>set (rows sample_df). order_id r \<noteq> None"
  by (simp add: sample_df_def line_O1a_def line_O1b_def line_O2_def line_O3_def)

theorem zero_denominator_values_witness:
  "total_orders empty_df = 0 \<and> rows empty_df = [] \<and>
   avg_order_value empty_df = Inl ZeroDivisionError \<and>
   total_orders null_id_df = 0 \<and> rows null_id_df \<noteq> [] \<and>
   avg_order_value null_id_df = Inr (zero_division 10) \<and>
   \<lparr>order_date = 24205, order_count = 0, revenue = 0\<rparr> \<in> set (prepare_monthly_data sample_df) \<and>
   month_rows sample_df 24205 = [] \<and>
   monthly_avg_order_value \<lparr>order_date = 24205, order_count = 0, revenue = 0\<rparr> = NaN"
proof -
  have ne: "rows null_id_df \<noteq> []" by (simp add: null_id_values(2))
  have mem: "\<lparr>order_date = 24205, order_count = 0, revenue = 0\<rparr> \<in> set (prepare_monthly_data sample_df)"
    unfolding sample_monthly by simp
  from zero_denominator_values [of empty_df]
  have "total_orders empty_df = 0 \<longrightarrow>
      (rows empty_df = [] \<longrightarrow> avg_order_value empty_df = Inl ZeroDivisionError) \<and>
      (rows empty_df \<noteq> [] \<longrightarrow>
         (\<forall>r\<in>set (rows empty_df). order_id r = None) \<and>
         avg_order_value empty_df =
           Inr (zero_division (\<Sum>r\<leftarrow>rows empty_df. null_as_zero (price r))))"
    by (elim conjE)
  with empty_values(1) empty_values(2)
  have a: "avg_order_value empty_df = Inl ZeroDivisionError" by blast
  from zero_denominator_values [of null_id_df]
  have "total_orders null_id_df = 0 \<longrightarrow>
      (rows null_id_df = [] \<longrightarrow> avg_order_value null_id_df = Inl ZeroDivisionError) \<and>
      (rows null_id_df \<noteq> [] \<longrightarrow>
         (\<forall>r\<in>set (rows null_id_df). order_id r = None) \<and>
         avg_order_value null_id_df =
           Inr (zero_division (\<Sum>r\<leftarrow>rows null_id_df. null_as_zero (price r))))"
    by (elim conjE)
  with null_id_values(1) ne
  have "avg_order_value null_id_df =
           Inr (zero_division (\<Sum>r\<leftarrow>rows null_id_df. null_as_zero (price r)))"
    by blast
  then have b: "avg_order_value null_id_df = Inr (zero_division 10)"
    by (simp only: null_id_values(3))
  from zero_denominator_values [of sample_df]
  have "(\<forall>r\<in>set (rows sample_df). order_id r \<noteq> None) \<longrightarrow>
      (\<forall>row\<in>set (prepare_monthly_data sample_df). order_count row = 0 \<longrightarrow>
         month_rows sample_df (order_date row) = [] \<and> revenue row = 0 \<and>
         monthly_avg_order_value row = NaN)"
    by (elim conjE)
  with sample_ids have "\<forall>row\<in>set (prepare_monthly_data sample_df). order_count row = 0 \<longrightarrow>
         month_rows sample_df (order_date row) = [] \<and> revenue row = 0 \<and>
         monthly_avg_order_value row = NaN"
    by (rule rev_mp)
  from this mem have "order_count \<lparr>order_date = 24205, order_count = 0, revenue = 0\<rparr> = 0 \<longrightarrow>
         month_rows sample_df (order_date \<lparr>order_date = 24205, order_count = 0, revenue = 0\<rparr>) = [] \<and>
         revenue \<lparr>order_date = 24205, order_count = 0, revenue = 0\<rparr> = 0 \<and>
         monthly_avg_order_value \<lparr>order_date = 24205, order_count = 0, revenue = 0\<rparr> = NaN"
    by (rule bspec)
  then have c: "month_rows sample_df 24205 = []"
    and d: "monthly_avg_order_value \<lparr>order_date = 24205, order_count = 0, revenue = 0\<rparr> = NaN"
    by simp_all
  from empty_values(1) empty_values(2) a null_id_values(1) ne b mem c d
  show ?thesis by (intro conjI)
qed

text \<open>
  The claim as stated, that the value is null and nothing fails whenever the denominator
  is zero: for the table without rows the division raises, and an Order Line with a price
  of 10 and no order identifier gives zero orders and a revenue of 10, overall and in its
  month, so that both ratios are plus infinity.
\<close>

theorem zero_denominator_counterexample:
  "total_orders empty_df = 0 \<and> avg_order_value empty_df = Inl ZeroDivisionError \<and>
   total_orders null_id_df = 0 \<and> avg_order_value null_id_df = Inr PosInf \<and>
   avg_order_value null_id_df \<noteq> Inr NaN \<and>
   \<lparr>order_date = 24206, order_count = 0, revenue = 10\<rparr> \<in> set (prepare_monthly_data null_id_df) \<and>
   monthly_avg_order_value \<lparr>order_date = 24206, order_count = 0, revenue = 10\<rparr> = PosInf \<and>
   monthly_avg_order_value \<lparr>order_date = 24206, order_count = 0, revenue = 10\<rparr> \<noteq> NaN"
  by (simp add: null_id_values empty_values)

section \<open>Loading\<close>











lemma one_file:
  "load_data directory ''one.csv'' = Inr \<lparr>columns = all_columns, rows = [line_O1a]\<rparr>"
  "run_script directory ValueError ''one.csv'' =
     ([Title, Introduction, Sidebar_title, Sidebar_radio], Reaches_line_120)"
  by code_simp+



end
